theory Spec2Isabelle
  imports Main "HOL-Library.Char_ord" "HOL-Library.List_Lexorder"
begin

section \<open>Strings\<close>

text \<open>
  Python strings are modelled as HOL strings: a character is a code point below 256
  (Latin-1).  The classifications below are those of Python's \<^verbatim>\<open>str\<close> methods and of the
  \<^verbatim>\<open>re\<close> module for such code points.
\<close>

definition code :: "char \<Rightarrow> nat" where
  "code c = of_char c"

definition is_space :: "char \<Rightarrow> bool" where
  \<comment> \<open>\<^verbatim>\<open>str.isspace\<close> and the class \<^verbatim>\<open>\s\<close>\<close>
  "is_space c = (let n = code c in
     (9 \<le> n \<and> n \<le> 13) \<or> (28 \<le> n \<and> n \<le> 32) \<or> n = 133 \<or> n = 160)"

definition is_digit :: "char \<Rightarrow> bool" where
  \<comment> \<open>the class \<^verbatim>\<open>\d\<close>\<close>
  "is_digit c = (let n = code c in 48 \<le> n \<and> n \<le> 57)"

definition is_word :: "char \<Rightarrow> bool" where
  \<comment> \<open>the class \<^verbatim>\<open>\w\<close>: alphanumeric characters and the underscore\<close>
  "is_word c = (let n = code c in
     (48 \<le> n \<and> n \<le> 57) \<or> (65 \<le> n \<and> n \<le> 90) \<or> n = 95 \<or> (97 \<le> n \<and> n \<le> 122) \<or>
     n = 170 \<or> n = 178 \<or> n = 179 \<or> n = 181 \<or> n = 185 \<or> n = 186 \<or>
     (188 \<le> n \<and> n \<le> 190) \<or> (192 \<le> n \<and> n \<le> 214) \<or> (216 \<le> n \<and> n \<le> 246) \<or>
     248 \<le> n)"

definition is_alias_char :: "char \<Rightarrow> bool" where
  \<comment> \<open>the class \<^verbatim>\<open>[\w\-]\<close>\<close>
  "is_alias_char c = (is_word c \<or> c = CHR ''-'')"

definition is_group_id_char :: "char \<Rightarrow> bool" where
  \<comment> \<open>the class \<^verbatim>\<open>[\w.@-]\<close>\<close>
  "is_group_id_char c = (is_word c \<or> c = CHR ''.'' \<or> c = CHR ''@'' \<or> c = CHR ''-'')"

definition is_dot :: "char \<Rightarrow> bool" where
  \<comment> \<open>the class \<^verbatim>\<open>.\<close> (no DOTALL flag): anything but a newline\<close>
  "is_dot c = (code c \<noteq> 10)"

definition lower_char :: "char \<Rightarrow> char" where
  "lower_char c = (let n = code c in
     if (65 \<le> n \<and> n \<le> 90) \<or> (192 \<le> n \<and> n \<le> 214) \<or> (216 \<le> n \<and> n \<le> 222)
     then char_of (n + 32) else c)"

definition lower :: "string \<Rightarrow> string" where
  \<comment> \<open>\<^verbatim>\<open>str.lower\<close>\<close>
  "lower s = map lower_char s"

definition strip :: "string \<Rightarrow> string" where
  \<comment> \<open>\<^verbatim>\<open>str.strip\<close> with no argument\<close>
  "strip s = rev (dropWhile is_space (rev (dropWhile is_space s)))"

definition int_of_digits :: "string \<Rightarrow> nat" where
  \<comment> \<open>\<^verbatim>\<open>int\<close> on a string of decimal digits (the interpreter's limit on their number is
      not modelled)\<close>
  "int_of_digits s = foldl (\<lambda>n c. 10 * n + (code c - 48)) 0 s"

section \<open>The regular expressions of the command grammar\<close>

text \<open>
  The patterns of \<^verbatim>\<open>app/commands.py\<close> use literals, one-or-more repetitions of a character
  class (greedy \<^verbatim>\<open>+\<close> and lazy \<^verbatim>\<open>+?\<close>), named groups, an optional group and the end anchor.
  All are compiled with \<^verbatim>\<open>re.IGNORECASE\<close> and are applied with \<^verbatim>\<open>match\<close>, that is, at the
  start of the string.  The matcher returns every way of matching, in the order in which a
  backtracking engine tries them; the first one is the match that \<^verbatim>\<open>re\<close> reports.
\<close>

datatype regex =
    Lit string
  | Plus "char \<Rightarrow> bool"
  | LazyPlus "char \<Rightarrow> bool"
  | Named string regex
  | Seq regex regex
  | Opt regex
  | Eos

type_synonym groups = "(string \<times> string) list"

definition lit_matches :: "string \<Rightarrow> string \<Rightarrow> bool" where
  "lit_matches l s = (length l \<le> length s \<and> lower (take (length l) s) = lower l)"

fun rmatch :: "regex \<Rightarrow> string \<Rightarrow> groups \<Rightarrow> (string \<times> groups) list" where
  "rmatch (Lit l) s g = (if lit_matches l s then [(drop (length l) s, g)] else [])"
| "rmatch (Plus p) s g = map (\<lambda>k. (drop k s, g)) (rev [1 ..< Suc (length (takeWhile p s))])"
| "rmatch (LazyPlus p) s g = map (\<lambda>k. (drop k s, g)) [1 ..< Suc (length (takeWhile p s))]"
| "rmatch (Named n r) s g =
     map (\<lambda>m. (fst m, (n, take (length s - length (fst m)) s) # snd m)) (rmatch r s g)"
| "rmatch (Seq r1 r2) s g = concat (map (\<lambda>m. rmatch r2 (fst m) (snd m)) (rmatch r1 s g))"
| "rmatch (Opt r) s g = rmatch r s g @ [(s, g)]"
| "rmatch Eos s g = (if s = [] \<or> s = [CHR 0x0A] then [(s, g)] else [])"

definition re_match :: "regex \<Rightarrow> string \<Rightarrow> (string \<rightharpoonup> string) option" where
  \<comment> \<open>\<^verbatim>\<open>pattern.match(s)\<close>: the named groups of the first match, if there is one\<close>
  "re_match r s = (case rmatch r s [] of [] \<Rightarrow> None | m # _ \<Rightarrow> Some (map_of (snd m)))"

definition match_group :: "(string \<rightharpoonup> string) \<Rightarrow> string \<Rightarrow> string" where
  \<comment> \<open>\<^verbatim>\<open>match.group(name)\<close> for a group that took part in the match\<close>
  "match_group m n = (case m n of Some v \<Rightarrow> v | None \<Rightarrow> [])"

definition SCHEDULE_RE :: regex where
  "SCHEDULE_RE = foldr Seq
     [Lit ''schedule'', Plus is_space, Lit [CHR 0x22], Named ''text'' (LazyPlus is_dot),
      Lit [CHR 0x22], Plus is_space, Lit ''to'', Plus is_space,
      Named ''alias'' (Plus is_alias_char), Plus is_space, Lit ''at'', Plus is_space,
      Named ''when'' (Plus is_dot)] Eos"

definition REGISTER_RE :: regex where
  "REGISTER_RE = foldr Seq
     [Lit ''register'', Plus is_space, Lit ''group'', Plus is_space,
      Named ''alias'' (Plus is_alias_char), Plus is_space,
      Named ''group_id'' (Plus is_group_id_char),
      Opt (Seq (Plus is_space) (Named ''group_name'' (Plus is_dot)))] Eos"

definition UNREGISTER_RE :: regex where
  "UNREGISTER_RE = foldr Seq
     [Lit ''unregister'', Plus is_space, Lit ''group'', Plus is_space,
      Named ''alias'' (Plus is_alias_char)] Eos"

definition CANCEL_RE :: regex where
  "CANCEL_RE = foldr Seq [Lit ''cancel'', Plus is_space, Named ''job_id'' (Plus is_digit)] Eos"

definition LIST_RE :: regex where
  "LIST_RE = Seq (Lit ''list'') Eos"

definition GROUPS_RE :: regex where
  "GROUPS_RE = Seq (Lit ''groups'') Eos"

section \<open>The command interpreter\<close>

text \<open>
  Modelled from the spec: the command \<^verbatim>\<open>ScheduleConfigCommand\<close>, which \<^verbatim>\<open>app/main.py\<close> imports
  from \<^verbatim>\<open>app/commands.py\<close> and dispatches on, and which \<^verbatim>\<open>app/commands.py\<close> does not declare.
  The spec gives it as \<open>ScheduleConfig(alias, when)\<close>; the field names are those that
  \<^verbatim>\<open>app/main.py\<close> reads.  The other six commands are the classes of \<^verbatim>\<open>app/commands.py\<close>.
\<close>

datatype owner_command =
    ScheduleCommand string string string  \<comment> \<open>text, group\_alias, when\<close>
  | ListCommand
  | CancelCommand nat  \<comment> \<open>job\_id\<close>
  | RegisterGroupCommand string string "string option"  \<comment> \<open>alias, group\_id, group\_name\<close>
  | UnregisterGroupCommand string  \<comment> \<open>alias\<close>
  | GroupsCommand
  | ScheduleConfigCommand string string  \<comment> \<open>group\_alias, when\<close>

datatype exn =
    CommandParseError
  | ValueError string
  | MultipleResultsFound
  | IntegrityError string
  | HTTPStatusError string
  | RuntimeError string
  | Retry nat

definition parse_owner_command :: "string \<Rightarrow> exn + owner_command" where
  "parse_owner_command message =
     (let normalized = strip message in
      case re_match SCHEDULE_RE normalized of
        Some m \<Rightarrow>
          Inr (ScheduleCommand (match_group m ''text'') (match_group m ''alias'')
                 (match_group m ''when''))
      | None \<Rightarrow>
      (case re_match REGISTER_RE normalized of
        Some m \<Rightarrow>
          (let group_name = map_option strip (m ''group_name'') in
           Inr (RegisterGroupCommand (match_group m ''alias'') (match_group m ''group_id'')
                  (case group_name of None \<Rightarrow> None
                   | Some n \<Rightarrow> if n = [] then None else Some n)))
      | None \<Rightarrow>
      (case re_match UNREGISTER_RE normalized of
        Some m \<Rightarrow> Inr (UnregisterGroupCommand (match_group m ''alias''))
      | None \<Rightarrow>
      (case re_match CANCEL_RE normalized of
        Some m \<Rightarrow> Inr (CancelCommand (int_of_digits (match_group m ''job_id'')))
      | None \<Rightarrow>
      (case re_match LIST_RE normalized of
        Some m \<Rightarrow> Inr ListCommand
      | None \<Rightarrow>
      (case re_match GROUPS_RE normalized of
        Some m \<Rightarrow> Inr GroupsCommand
      | None \<Rightarrow> Inl CommandParseError))))))"

section \<open>The data model\<close>

text \<open>
  A datetime is modelled by the instant it denotes, in microseconds since the epoch;
  \<^verbatim>\<open>to_utc\<close>, \<^verbatim>\<open>astimezone\<close> and the re-tagging of a stored value as UTC do not change the
  instant.  A \<^verbatim>\<open>timedelta\<close> is a number of microseconds.
\<close>

type_synonym datetime = int

definition seconds :: "int \<Rightarrow> int" where
  "seconds n = n * 1000000"

definition minutes :: "int \<Rightarrow> int" where
  "minutes n = n * 60000000"

definition hours :: "int \<Rightarrow> int" where
  "hours n = n * 3600000000"

definition to_utc :: "datetime \<Rightarrow> datetime" where
  "to_utc dt = dt"

datatype JobStatus = SCHEDULED | SENT | CANCELLED | FAILED

record job =
  job_id :: nat
  job_group_id :: string
  job_group_alias :: string
  job_text :: string
  job_run_at :: datetime
  job_created_by :: string
  job_created_at :: datetime
  job_celery_task_id :: "string option"
  job_status :: JobStatus
  job_last_error :: "string option"
  job_correlation_key :: "string option"

record group_row =
  grp_id :: nat
  grp_alias :: string
  grp_group_id :: string
  grp_group_name :: "string option"
  grp_created_at :: datetime

text \<open>
  Modelled from the spec: the table \<^verbatim>\<open>PendingSchedule\<close>, which \<^verbatim>\<open>app/scheduler.py\<close> imports
  from \<^verbatim>\<open>app/models.py\<close> and \<^verbatim>\<open>app/models.py\<close> does not declare.  The spec gives it the fields
  owner id (unique), group alias, run\_at and created\_at; \<^verbatim>\<open>app/main.py\<close> reads
  \<^verbatim>\<open>created_at\<close> as a value that may be absent.
\<close>

record pending_schedule =
  pend_owner_id :: string
  pend_group_alias :: string
  pend_run_at :: datetime
  pend_created_at :: "datetime option"

record message_correlation =
  corr_id :: nat
  corr_bot_message_id :: string
  corr_group_id :: string
  corr_job_id :: nat
  corr_original_message_id :: "string option"
  corr_window_expires_at :: datetime
  corr_created_at :: datetime

text \<open>
  The outside world: the task dispatcher (Celery) and the messaging provider.  Every call
  is logged in the state.  A call to the provider is logged with its outcome: the exception
  it raised, or the ids of the entries of \<^verbatim>\<open>"messages"\<close> in the response.
\<close>

datatype celery_call =
    SendTask nat datetime string  \<comment> \<open>job id, eta, the task id returned\<close>
  | Revoke string  \<comment> \<open>task id\<close>

datatype wa_message =
    TextMessage string string string  \<comment> \<open>to, text, recipient\_type\<close>

type_synonym wa_response = "string option list"

type_synonym provider = "wa_message \<Rightarrow> exn + wa_response"

record state =
  jobs :: "job list"
  groups :: "group_row list"
  pending_schedules :: "pending_schedule list"
  message_correlations :: "message_correlation list"
  celery_calls :: "celery_call list"
  wa_calls :: "(wa_message \<times> (exn + wa_response)) list"

record settings =
  owner_wa_id :: string
  wa_phone_number_id :: string
  message_window_hours :: int

text \<open>
  Library functions that the code calls and whose definitions are not part of the
  repository: \<^verbatim>\<open>hashlib.sha256(...).hexdigest()\<close>, \<^verbatim>\<open>datetime.isoformat\<close>,
  \<^verbatim>\<open>dateparser.parse\<close> (behind \<^verbatim>\<open>parse_natural_datetime\<close>, relative to a base instant) and
  \<^verbatim>\<open>strftime('%Y-%m-%d %H:%M %Z')\<close> in the default time zone.
\<close>

record lib =
  sha256_hexdigest :: "string \<Rightarrow> string"
  isoformat :: "datetime \<Rightarrow> string"
  parse_natural_datetime :: "datetime \<Rightarrow> string \<Rightarrow> datetime option"
  strftime_local :: "datetime \<Rightarrow> string"

section \<open>Operations that may raise\<close>

type_synonym 'a action = "state \<Rightarrow> (exn + 'a) \<times> state"

definition return_ok :: "'a \<Rightarrow> 'a action" where
  "return_ok v s = (Inr v, s)"

definition and_then :: "'a action \<Rightarrow> ('a \<Rightarrow> 'b action) \<Rightarrow> 'b action" where
  "and_then m f s = (case m s of (Inl e, s') \<Rightarrow> (Inl e, s') | (Inr v, s') \<Rightarrow> f v s')"

definition rollback :: "state \<Rightarrow> state \<Rightarrow> state" where
  \<comment> \<open>the tables as they were in \<open>s\<close>; what went out to the dispatcher and the provider stays\<close>
  "rollback s s' = s'\<lparr>jobs := jobs s, groups := groups s,
     pending_schedules := pending_schedules s,
     message_correlations := message_correlations s\<rparr>"

definition session_scope :: "'a action \<Rightarrow> 'a action" where
  \<comment> \<open>\<^verbatim>\<open>app/db.py\<close>: commit when the body returns, roll back and re-raise when it raises\<close>
  "session_scope body s =
     (case body s of (Inr v, s') \<Rightarrow> (Inr v, s') | (Inl e, s') \<Rightarrow> (Inl e, rollback s s'))"

definition scalar_one_or_none :: "'a list \<Rightarrow> exn + 'a option" where
  "scalar_one_or_none rows =
     (case rows of [] \<Rightarrow> Inr None | [r] \<Rightarrow> Inr (Some r) | _ \<Rightarrow> Inl MultipleResultsFound)"

definition next_id :: "nat list \<Rightarrow> nat" where
  \<comment> \<open>an integer primary key: one more than the largest in the table\<close>
  "next_id ids = Suc (foldr max ids 0)"

fun update_first :: "('a \<Rightarrow> bool) \<Rightarrow> ('a \<Rightarrow> 'a) \<Rightarrow> 'a list \<Rightarrow> 'a list" where
  "update_first p f [] = []"
| "update_first p f (x # xs) = (if p x then f x # xs else x # update_first p f xs)"

definition truthy :: "string option \<Rightarrow> bool" where
  \<comment> \<open>Python's truth value of an optional string: neither \<^verbatim>\<open>None\<close> nor empty\<close>
  "truthy v = (case v of None \<Rightarrow> False | Some x \<Rightarrow> x \<noteq> [])"

definition get_job :: "nat \<Rightarrow> state \<Rightarrow> job option" where
  \<comment> \<open>\<^verbatim>\<open>session.get(Job, job_id)\<close>\<close>
  "get_job i s = find (\<lambda>j. job_id j = i) (jobs s)"


section \<open>The scheduling engine (\<^verbatim>\<open>app/scheduler.py\<close>)\<close>

definition quoted :: "string \<Rightarrow> string" where
  \<comment> \<open>the text between two apostrophes\<close>
  "quoted x = [CHR 0x27] @ x @ [CHR 0x27]"

definition correlation_payload :: "lib \<Rightarrow> string \<Rightarrow> string \<Rightarrow> datetime \<Rightarrow> string" where
  \<comment> \<open>the string that \<^verbatim>\<open>_generate_correlation_key\<close> hashes\<close>
  "correlation_payload lib group_id text run_at =
     group_id @ ''|'' @ text @ ''|'' @ isoformat lib run_at"

definition generate_correlation_key :: "lib \<Rightarrow> string \<Rightarrow> string \<Rightarrow> datetime \<Rightarrow> string" where
  "generate_correlation_key lib group_id text run_at =
     (let payload = correlation_payload lib group_id text run_at in
      sha256_hexdigest lib payload)"

text \<open>
  \<^verbatim>\<open>schedule_job\<close>.  The clock reading \<open>now\<close> and the task id that the dispatcher returns are
  inputs.  The function reads the tables, and later inserts; \<open>concurrent\<close> is what other
  transactions commit between the two, the identity when the call runs alone.  The insert
  is refused by the unique constraint on \<^verbatim>\<open>correlation_key\<close> when the key is in the table.
\<close>

definition schedule_job_under ::
  "(state \<Rightarrow> state) \<Rightarrow> lib \<Rightarrow> datetime \<Rightarrow> string \<Rightarrow>
   string \<Rightarrow> string \<Rightarrow> datetime \<Rightarrow> string \<Rightarrow> string option \<Rightarrow> job action" where
  "schedule_job_under concurrent lib now task_id group_alias text run_at created_by
       correlation_key s =
     (let group_alias_normalized = lower group_alias in
      case scalar_one_or_none (filter (\<lambda>g. grp_alias g = group_alias_normalized) (groups s)) of
        Inl e \<Rightarrow> (Inl e, s)
      | Inr None \<Rightarrow>
          (Inl (ValueError (''Unknown group alias '' @ quoted group_alias @
                  ''. Use register group first.'')), s)
      | Inr (Some grp) \<Rightarrow>
      (let run_at_utc = to_utc run_at; current_utc = to_utc now in
       case (if run_at_utc \<le> current_utc
             then (if current_utc - run_at_utc \<le> minutes 5
                   then Inr (current_utc + seconds 10)
                   else Inl (ValueError ''Scheduled time is in the past.''))
             else Inr run_at_utc) of
         Inl e \<Rightarrow> (Inl e, s)
       | Inr run_at_utc \<Rightarrow>
       (let correlation_key =
              (if truthy correlation_key then correlation_key
               else Some (generate_correlation_key lib (grp_group_id grp) text run_at_utc))
        in
        case scalar_one_or_none
               (filter (\<lambda>j. job_correlation_key j = correlation_key) (jobs s)) of
          Inl e \<Rightarrow> (Inl e, s)
        | Inr (Some existing_job) \<Rightarrow> (Inr existing_job, s)
        | Inr None \<Rightarrow>
        (let s1 = concurrent s;
             job = \<lparr>job_id = next_id (map job_id (jobs s1)),
                    job_group_id = grp_group_id grp,
                    job_group_alias = grp_alias grp,
                    job_text = text,
                    job_run_at = run_at_utc,
                    job_created_by = created_by,
                    job_created_at = now,
                    job_celery_task_id = None,
                    job_status = SCHEDULED,
                    job_last_error = None,
                    job_correlation_key = correlation_key\<rparr>
         in
         if correlation_key \<in> set (map job_correlation_key (jobs s1))
         then (Inl (IntegrityError ''jobs.correlation_key''), s1)
         else
           (let job = job\<lparr>job_celery_task_id := Some task_id\<rparr> in
            (Inr job,
             s1\<lparr>jobs := jobs s1 @ [job],
                celery_calls := celery_calls s1 @ [SendTask (job_id job) run_at_utc task_id]\<rparr>))))))"

definition schedule_job ::
  "lib \<Rightarrow> datetime \<Rightarrow> string \<Rightarrow>
   string \<Rightarrow> string \<Rightarrow> datetime \<Rightarrow> string \<Rightarrow> string option \<Rightarrow> job action" where
  "schedule_job = schedule_job_under (\<lambda>s. s)"

definition get_group_by_alias :: "string \<Rightarrow> state \<Rightarrow> exn + group_row option" where
  "get_group_by_alias alias s =
     (let alias_normalized = lower alias in
      scalar_one_or_none (filter (\<lambda>g. grp_alias g = alias_normalized) (groups s)))"

definition cancel_job :: "nat \<Rightarrow> bool action" where
  "cancel_job i s =
     (case get_job i s of
        None \<Rightarrow> (Inr False, s)
      | Some job \<Rightarrow>
          if job_status job = CANCELLED \<or> job_status job = SENT then (Inr True, s)
          else
            (let s1 = s\<lparr>jobs := update_first (\<lambda>j. job_id j = i)
                          (\<lambda>j. j\<lparr>job_status := CANCELLED, job_last_error := None\<rparr>) (jobs s)\<rparr>
             in case job_celery_task_id job of
                  None \<Rightarrow> (Inr True, s1)
                | Some t \<Rightarrow>
                    if t = [] then (Inr True, s1)
                    else (Inr True, s1\<lparr>celery_calls := celery_calls s1 @ [Revoke t]\<rparr>)))"

definition list_jobs :: "state \<Rightarrow> job list" where
  "list_jobs s = sort_key job_run_at (filter (\<lambda>j. job_status j = SCHEDULED) (jobs s))"

definition get_pending_schedule :: "string \<Rightarrow> state \<Rightarrow> exn + pending_schedule option" where
  "get_pending_schedule owner_id s =
     scalar_one_or_none (filter (\<lambda>p. pend_owner_id p = owner_id) (pending_schedules s))"

definition save_pending_schedule ::
  "datetime \<Rightarrow> string \<Rightarrow> string \<Rightarrow> datetime \<Rightarrow> pending_schedule action" where
  "save_pending_schedule now owner_id group_alias run_at s =
     (let alias_normalized = lower group_alias; run_at_utc = to_utc run_at in
      case get_pending_schedule owner_id s of
        Inl e \<Rightarrow> (Inl e, s)
      | Inr (Some pending) \<Rightarrow>
          (let pending = pending\<lparr>pend_group_alias := alias_normalized,
                                 pend_run_at := run_at_utc, pend_created_at := Some now\<rparr>
           in (Inr pending,
               s\<lparr>pending_schedules :=
                    update_first (\<lambda>p. pend_owner_id p = owner_id) (\<lambda>p. pending)
                      (pending_schedules s)\<rparr>))
      | Inr None \<Rightarrow>
          (let pending = \<lparr>pend_owner_id = owner_id, pend_group_alias = alias_normalized,
                          pend_run_at = run_at_utc, pend_created_at = Some now\<rparr>
           in (Inr pending, s\<lparr>pending_schedules := pending_schedules s @ [pending]\<rparr>)))"

definition clear_pending_schedule :: "string \<Rightarrow> bool action" where
  "clear_pending_schedule owner_id s =
     (case get_pending_schedule owner_id s of
        Inl e \<Rightarrow> (Inl e, s)
      | Inr None \<Rightarrow> (Inr False, s)
      | Inr (Some pending) \<Rightarrow>
          (Inr True, s\<lparr>pending_schedules := remove1 pending (pending_schedules s)\<rparr>))"

definition register_group ::
  "datetime \<Rightarrow> string \<Rightarrow> string \<Rightarrow> string option \<Rightarrow> group_row action" where
  "register_group now alias group_id group_name s =
     (let alias_normalized = lower alias in
      case scalar_one_or_none (filter (\<lambda>g. grp_alias g = alias_normalized) (groups s)) of
        Inl e \<Rightarrow> (Inl e, s)
      | Inr (Some grp) \<Rightarrow>
          (let grp = grp\<lparr>grp_group_id := group_id, grp_group_name := group_name\<rparr> in
           (Inr grp,
            s\<lparr>groups := update_first (\<lambda>g. grp_alias g = alias_normalized) (\<lambda>g. grp)
                           (groups s)\<rparr>))
      | Inr None \<Rightarrow>
          (let grp = \<lparr>grp_id = next_id (map grp_id (groups s)), grp_alias = alias_normalized,
                        grp_group_id = group_id, grp_group_name = group_name,
                        grp_created_at = now\<rparr>
           in (Inr grp, s\<lparr>groups := groups s @ [grp]\<rparr>)))"

definition unregister_group :: "string \<Rightarrow> bool action" where
  "unregister_group alias s =
     (let alias_normalized = lower alias in
      case scalar_one_or_none (filter (\<lambda>g. grp_alias g = alias_normalized) (groups s)) of
        Inl e \<Rightarrow> (Inl e, s)
      | Inr None \<Rightarrow> (Inr False, s)
      | Inr (Some grp) \<Rightarrow> (Inr True, s\<lparr>groups := remove1 grp (groups s)\<rparr>))"

definition list_groups :: "state \<Rightarrow> group_row list" where
  "list_groups s = sort_key grp_alias (groups s)"

definition mark_job_sent :: "nat \<Rightarrow> state \<Rightarrow> state" where
  "mark_job_sent i s =
     s\<lparr>jobs := update_first (\<lambda>j. job_id j = i)
                  (\<lambda>j. j\<lparr>job_status := SENT, job_last_error := None\<rparr>) (jobs s)\<rparr>"

definition mark_job_failed :: "nat \<Rightarrow> string \<Rightarrow> state \<Rightarrow> state" where
  "mark_job_failed i error s =
     s\<lparr>jobs := update_first (\<lambda>j. job_id j = i)
                  (\<lambda>j. j\<lparr>job_status := FAILED, job_last_error := Some error\<rparr>) (jobs s)\<rparr>"


section \<open>The correlation tracker (\<^verbatim>\<open>app/logic.py\<close>)\<close>

text \<open>
  \<^verbatim>\<open>record_correlation\<close> inserts a row; the insert is refused when the message id is absent
  (the column is not nullable) or is in the table already (the column is unique).
\<close>

definition record_correlation ::
  "settings \<Rightarrow> datetime \<Rightarrow> nat \<Rightarrow> string \<Rightarrow> string option \<Rightarrow> string option \<Rightarrow>
   message_correlation action" where
  "record_correlation settings now i group_id bot_message_id original_message_id s =
     (let expires_at = now + hours (message_window_hours settings) in
      case bot_message_id of
        None \<Rightarrow> (Inl (IntegrityError ''message_correlations.bot_message_id''), s)
      | Some b \<Rightarrow>
          if b \<in> set (map corr_bot_message_id (message_correlations s))
          then (Inl (IntegrityError ''uq_bot_message_id''), s)
          else
            (let correlation =
                   \<lparr>corr_id = next_id (map corr_id (message_correlations s)),
                    corr_bot_message_id = b,
                    corr_group_id = group_id,
                    corr_job_id = i,
                    corr_original_message_id = original_message_id,
                    corr_window_expires_at = expires_at,
                    corr_created_at = now\<rparr>
             in (Inr correlation,
                 s\<lparr>message_correlations := message_correlations s @ [correlation]\<rparr>)))"

definition window_in_future :: "datetime \<Rightarrow> datetime \<Rightarrow> bool" where
  "window_in_future expires_at now = (expires_at > now)"

definition find_correlation_for_context ::
  "datetime \<Rightarrow> string \<Rightarrow> string option \<Rightarrow> state \<Rightarrow> exn + message_correlation option" where
  "find_correlation_for_context now group_id context_message_id s =
     (case (case context_message_id of
              None \<Rightarrow> Inr None
            | Some cid \<Rightarrow>
                if cid = [] then Inr None
                else
                  (case scalar_one_or_none
                          (filter (\<lambda>c. corr_bot_message_id c = cid) (message_correlations s)) of
                     Inl e \<Rightarrow> Inl e
                   | Inr None \<Rightarrow> Inr None
                   | Inr (Some correlation) \<Rightarrow>
                       if window_in_future (corr_window_expires_at correlation) now
                       then Inr (Some correlation) else Inr None)) of
        Inl e \<Rightarrow> Inl e
      | Inr (Some correlation) \<Rightarrow> Inr (Some correlation)
      | Inr None \<Rightarrow>
          (case sort_key (\<lambda>c. - corr_created_at c)
                  (filter (\<lambda>c. corr_group_id c = group_id \<and> corr_window_expires_at c > now)
                     (message_correlations s)) of
             [] \<Rightarrow> Inr None
           | correlation # _ \<Rightarrow>
               if window_in_future (corr_window_expires_at correlation) now
               then Inr (Some correlation) else Inr None))"

definition cleanup_expired_correlations :: "datetime \<Rightarrow> state \<Rightarrow> nat \<times> state" where
  "cleanup_expired_correlations now s =
     (length (filter (\<lambda>c. corr_window_expires_at c < now) (message_correlations s)),
      s\<lparr>message_correlations :=
           filter (\<lambda>c. \<not> corr_window_expires_at c < now) (message_correlations s)\<rparr>)"

section \<open>The job executor (\<^verbatim>\<open>app/workers.py\<close>)\<close>

definition send_text_message :: "provider \<Rightarrow> string \<Rightarrow> string \<Rightarrow> string \<Rightarrow> wa_response action" where
  \<comment> \<open>\<^verbatim>\<open>WhatsAppClient.send_text_message\<close>: one request to the provider\<close>
  "send_text_message provider to body recipient_type s =
     (let m = TextMessage to body recipient_type; r = provider m in
      (r, s\<lparr>wa_calls := wa_calls s @ [(m, r)]\<rparr>))"

definition endswith :: "string \<Rightarrow> string \<Rightarrow> bool" where
  "endswith x suffix =
     (length suffix \<le> length x \<and> drop (length x - length suffix) x = suffix)"

definition max_retries :: nat where
  "max_retries = 5"

text \<open>
  The body of the task \<^verbatim>\<open>send_scheduled_message\<close>; \<open>retries\<close> is \<^verbatim>\<open>self.request.retries\<close>.
  \<^verbatim>\<open>self.retry\<close> raises \<^verbatim>\<open>Retry\<close>, or the original exception once the retries are used up.
\<close>

definition send_scheduled_message ::
  "settings \<Rightarrow> provider \<Rightarrow> datetime \<Rightarrow> nat \<Rightarrow> nat \<Rightarrow> unit action" where
  "send_scheduled_message settings provider now request_retries i =
     session_scope (\<lambda>s.
       case get_job i s of
         None \<Rightarrow> (Inr (), s)
       | Some job \<Rightarrow>
           if job_status job = CANCELLED then (Inr (), s)
           else if job_status job = SENT then (Inr (), s)
           else
             (case scalar_one_or_none
                     (filter (\<lambda>c. corr_job_id c = job_id job) (message_correlations s)) of
                Inl e \<Rightarrow> (Inl e, s)
              | Inr (Some existing_correlation) \<Rightarrow> (Inr (), mark_job_sent (job_id job) s)
              | Inr None \<Rightarrow>
                  (let dest = job_group_id job;
                       recipient_type =
                         (if endswith dest ''@g.us'' then ''group'' else ''individual'')
                   in case send_text_message provider dest (job_text job) recipient_type s of
                        (Inl (HTTPStatusError m), s1) \<Rightarrow>
                          (let retries = request_retries + 1;
                               countdown = min 600 (30 * retries)
                           in if retries > max_retries then (Inl (HTTPStatusError m), s1)
                              else (Inl (Retry countdown), s1))
                      | (Inl e, s1) \<Rightarrow> (Inl e, s1)
                      | (Inr messages, s1) \<Rightarrow>
                          (case messages of
                             [] \<Rightarrow>
                               (Inl (RuntimeError ''No message id returned from WhatsApp''),
                                mark_job_failed (job_id job)
                                  ''No message id returned from WhatsApp'' s1)
                           | bot_message_id # _ \<Rightarrow>
                               and_then
                                 (record_correlation settings now (job_id job)
                                    (job_group_id job) bot_message_id None)
                                 (\<lambda>_ s2. (Inr (), mark_job_sent (job_id job) s2)) s1))))"

definition str_exn :: "exn \<Rightarrow> string" where
  "str_exn e =
     (case e of
        CommandParseError \<Rightarrow> ''Unable to understand the command.''
      | ValueError m \<Rightarrow> m
      | MultipleResultsFound \<Rightarrow> ''Multiple rows were found when one or none was required''
      | IntegrityError m \<Rightarrow> m
      | HTTPStatusError m \<Rightarrow> m
      | RuntimeError m \<Rightarrow> m
      | Retry n \<Rightarrow> ''Retry'')"

definition on_failure :: "exn \<Rightarrow> nat \<Rightarrow> unit action" where
  \<comment> \<open>\<^verbatim>\<open>DatabaseTask.on_failure\<close>\<close>
  "on_failure exc i = session_scope (\<lambda>s. (Inr (), mark_job_failed i (str_exn exc) s))"

definition fire_send_scheduled_message ::
  "settings \<Rightarrow> provider \<Rightarrow> datetime \<Rightarrow> nat \<Rightarrow> nat \<Rightarrow> unit action" where
  \<comment> \<open>one delivery of the fire event: the task body, then \<^verbatim>\<open>on_failure\<close> when the task
      fails (a \<^verbatim>\<open>Retry\<close> is not a failure)\<close>
  "fire_send_scheduled_message settings provider now request_retries i s =
     (case send_scheduled_message settings provider now request_retries i s of
        (Inr v, s') \<Rightarrow> (Inr v, s')
      | (Inl (Retry c), s') \<Rightarrow> (Inl (Retry c), s')
      | (Inl e, s') \<Rightarrow> (Inl e, snd (on_failure e i s')))"


section \<open>The owner's messages (\<^verbatim>\<open>app/main.py\<close>)\<close>

record incoming_message =
  msg_sender_wa_id :: string
  msg_sender_name :: "string option"
  msg_message_id :: string
  msg_timestamp :: datetime
  msg_message_type :: string
  msg_text :: "string option"
  msg_button_payload :: "string option"
  msg_button_title :: "string option"
  msg_context_message_id :: "string option"
  msg_group_id :: "string option"
  msg_group_name :: "string option"
  msg_is_group :: bool

definition nl :: string where
  "nl = [CHR 0x0A]"

definition dq :: string where
  "dq = [CHR 0x22]"

fun join_lines :: "string list \<Rightarrow> string" where
  \<comment> \<open>\<^verbatim>\<open>"\n".join(lines)\<close>\<close>
  "join_lines [] = []"
| "join_lines [x] = x"
| "join_lines (x # y # ys) = x @ nl @ join_lines (y # ys)"

function str_nat :: "nat \<Rightarrow> string" where
  \<comment> \<open>\<^verbatim>\<open>str\<close> of a non-negative integer\<close>
  "str_nat n = (if n < 10 then [char_of (48 + n)] else str_nat (n div 10) @ [char_of (48 + n mod 10)])"
  by pat_completeness auto
termination
  by (relation "measure (\<lambda>n. n)") auto

declare str_nat.simps [simp del]

definition owner_command_help :: string where
  "owner_command_help = join_lines
     [''Commands:'',
      ''- register group <alias> <group_id> [optional name]'',
      ''- unregister group <alias>'',
      ''- groups'',
      ''- schedule '' @ dq @ ''<text>'' @ dq @ '' to <alias> [at] <natural datetime>'',
      ''- schedule to <alias> [at] <natural datetime> (send content next)'',
      ''- list'',
      ''- cancel <job_id>'',
      ''Examples:'',
      ''schedule '' @ dq @ ''Standup at 09:00'' @ dq @ '' to team at today 08:55'',
      ''schedule '' @ dq @ ''Demo tomorrow'' @ dq @ '' to sales Sun 9am'',
      ''schedule to team at tomorrow 09:00'',
      ''schedule to team in 1 minute'']"

definition reply :: "settings \<Rightarrow> provider \<Rightarrow> string \<Rightarrow> unit action" where
  \<comment> \<open>\<^verbatim>\<open>client.send_text_message(to=settings.owner_wa_id, text=...)\<close>, the response dropped\<close>
  "reply settings provider body =
     and_then (send_text_message provider (owner_wa_id settings) body ''individual'')
       (\<lambda>_. return_ok ())"

definition complete_pending_schedule ::
  "lib \<Rightarrow> settings \<Rightarrow> provider \<Rightarrow> datetime \<Rightarrow> string \<Rightarrow> pending_schedule \<Rightarrow> string \<Rightarrow>
   unit action" where
  "complete_pending_schedule lib settings provider now task_id pending content_text =
     (if strip content_text = []
      then reply settings provider
             ''Cannot schedule an empty message. Please send the content text.''
      else
        (let run_at = pend_run_at pending;
             created_at = pend_created_at pending;
             basis = (case created_at of Some c \<Rightarrow> c | None \<Rightarrow> now);
             adjusted = (run_at \<le> now \<and> now - basis \<le> minutes 5);
             run_at = (if adjusted then now + seconds 10 else run_at)
         in (\<lambda>s.
           case schedule_job lib now task_id (pend_group_alias pending) content_text run_at
                  (owner_wa_id settings) None s of
             (Inl (ValueError m), s1) \<Rightarrow>
               and_then (clear_pending_schedule (owner_wa_id settings))
                 (\<lambda>_. reply settings provider m) s1
           | (Inl e, s1) \<Rightarrow> (Inl e, s1)
           | (Inr job, s1) \<Rightarrow>
               and_then (clear_pending_schedule (owner_wa_id settings))
                 (\<lambda>_. reply settings provider
                    (if adjusted
                     then ''Original time had just passed; scheduled job #'' @
                          str_nat (job_id job) @ '' to '' @ quoted (pend_group_alias pending) @
                          '' at '' @ strftime_local lib run_at @ '' using forwarded content.''
                     else ''Scheduled job #'' @ str_nat (job_id job) @ '' to '' @
                          quoted (pend_group_alias pending) @ '' at '' @
                          strftime_local lib run_at @ '' using forwarded content.'')) s1)))"

definition handle_owner_command ::
  "lib \<Rightarrow> settings \<Rightarrow> provider \<Rightarrow> datetime \<Rightarrow> string \<Rightarrow> owner_command \<Rightarrow> unit action" where
  "handle_owner_command lib settings provider now task_id command =
     (case command of
        ScheduleCommand text group_alias when_phrase \<Rightarrow>
          (case parse_natural_datetime lib now when_phrase of
             None \<Rightarrow>
               reply settings provider
                 (''Could not parse the schedule time. Please try again.'' @ nl @
                  owner_command_help)
           | Some run_at_utc \<Rightarrow> (\<lambda>s.
               case schedule_job lib now task_id group_alias text run_at_utc
                      (owner_wa_id settings) None s of
                 (Inl (ValueError m), s1) \<Rightarrow> reply settings provider m s1
               | (Inl e, s1) \<Rightarrow> (Inl e, s1)
               | (Inr job, s1) \<Rightarrow>
                   and_then (clear_pending_schedule (owner_wa_id settings))
                     (\<lambda>_. reply settings provider
                        (''Scheduled job #'' @ str_nat (job_id job) @ '' to '' @
                         quoted group_alias @ '' at '' @ strftime_local lib run_at_utc @ ''.''))
                     s1))
      | ScheduleConfigCommand group_alias when_phrase \<Rightarrow>
          (case parse_natural_datetime lib now when_phrase of
             None \<Rightarrow>
               reply settings provider
                 (''Could not parse the schedule time. Please try again.'' @ nl @
                  owner_command_help)
           | Some run_at_utc \<Rightarrow> (\<lambda>s.
               case get_group_by_alias group_alias s of
                 Inl e \<Rightarrow> (Inl e, s)
               | Inr None \<Rightarrow>
                   reply settings provider
                     (''Unknown group alias '' @ quoted group_alias @
                      ''. Use register group first.'') s
               | Inr (Some grp) \<Rightarrow>
                   if run_at_utc \<le> now
                   then reply settings provider
                          ''Scheduled time is in the past. Please choose a future time.'' s
                   else
                     and_then
                       (save_pending_schedule now (owner_wa_id settings) (grp_alias grp)
                          run_at_utc)
                       (\<lambda>_. reply settings provider
                          (''Configuration stored. Forward or send the message content to '' @
                           ''schedule it to '' @ quoted (grp_alias grp) @ '' at '' @
                           strftime_local lib run_at_utc @ ''.'')) s))
      | ListCommand \<Rightarrow> (\<lambda>s.
          let job_rows = list_jobs s in
          if job_rows = [] then reply settings provider ''No jobs scheduled.'' s
          else reply settings provider
                 (join_lines
                    (map (\<lambda>job. ''#'' @ str_nat (job_id job) @ '' '' @ job_group_alias job @
                            '' at '' @ strftime_local lib (job_run_at job) @ '' '' @ dq @
                            job_text job @ dq) job_rows)) s)
      | CancelCommand i \<Rightarrow>
          and_then (cancel_job i)
            (\<lambda>cancelled.
               if cancelled
               then reply settings provider (''Cancelled job #'' @ str_nat i @ ''.'')
               else reply settings provider (''Job #'' @ str_nat i @ '' not found.''))
      | GroupsCommand \<Rightarrow> (\<lambda>s.
          let group_rows = list_groups s in
          if group_rows = []
          then reply settings provider
                 (''No groups registered. Use '' @
                  quoted ''register group <alias> <group_id>'' @ ''.'') s
          else reply settings provider
                 (join_lines
                    (map (\<lambda>grp. grp_alias grp @ '' -> '' @ grp_group_id grp @
                            (case grp_group_name grp of
                               None \<Rightarrow> []
                             | Some n \<Rightarrow> if n = [] then [] else '' ('' @ n @ '')''))
                       group_rows)) s)
      | RegisterGroupCommand alias group_id group_name \<Rightarrow>
          and_then (register_group now alias group_id group_name)
            (\<lambda>grp. reply settings provider
               (''Registered group '' @ quoted (grp_alias grp) @ '' with ID '' @
                grp_group_id grp @ ''.''))
      | UnregisterGroupCommand alias \<Rightarrow>
          and_then (unregister_group alias)
            (\<lambda>removed.
               if removed
               then reply settings provider (''Unregistered group '' @ quoted alias @ ''.'')
               else reply settings provider (''Group '' @ quoted alias @ '' not found.'')))"

definition process_owner_message ::
  "lib \<Rightarrow> settings \<Rightarrow> provider \<Rightarrow> datetime \<Rightarrow> string \<Rightarrow> incoming_message \<Rightarrow> unit action" where
  "process_owner_message lib settings provider now task_id message =
     session_scope (\<lambda>s.
       if msg_sender_wa_id message \<noteq> owner_wa_id settings then (Inr (), s)
       else
         (case get_pending_schedule (owner_wa_id settings) s of
            Inl e \<Rightarrow> (Inl e, s)
          | Inr pending_schedule \<Rightarrow>
              if truthy (msg_button_payload message)
              then reply settings provider ''Interactive actions are not supported.'' s
              else
                (case msg_text message of
                   None \<Rightarrow>
                     (if pending_schedule \<noteq> None
                      then reply settings provider
                             (''Pending schedule is waiting for content, but the message type '' @
                              ''is unsupported. Please forward or send text content.'') s
                      else reply settings provider
                             ''Unsupported message type. Send text commands.'' s)
                 | Some body \<Rightarrow>
                     if body = []
                     then
                       (if pending_schedule \<noteq> None
                        then reply settings provider
                               (''Pending schedule is waiting for content, but the message type '' @
                                ''is unsupported. Please forward or send text content.'') s
                        else reply settings provider
                               ''Unsupported message type. Send text commands.'' s)
                     else
                       (case parse_owner_command body of
                          Inl CommandParseError \<Rightarrow>
                            (case pending_schedule of
                               Some pending \<Rightarrow>
                                 complete_pending_schedule lib settings provider now task_id
                                   pending body s
                             | None \<Rightarrow>
                                 reply settings provider
                                   (''Could not parse command.'' @ nl @ owner_command_help) s)
                        | Inl e \<Rightarrow> (Inl e, s)
                        | Inr command \<Rightarrow>
                            handle_owner_command lib settings provider now task_id command s))))"


section \<open>Constraints of the tables\<close>

definition uq_correlation_key :: "state \<Rightarrow> bool" where
  \<comment> \<open>the unique constraint on \<^verbatim>\<open>jobs.correlation_key\<close> (absent keys do not conflict)\<close>
  "uq_correlation_key s = distinct (List.map_filter job_correlation_key (jobs s))"

definition uq_bot_message_id :: "state \<Rightarrow> bool" where
  \<comment> \<open>the unique constraint \<^verbatim>\<open>uq_bot_message_id\<close>\<close>
  "uq_bot_message_id s = distinct (map corr_bot_message_id (message_correlations s))"

definition no_digest_collision :: "lib \<Rightarrow> state \<Rightarrow> string \<Rightarrow> bool" where
  \<comment> \<open>no row of the table was keyed from another payload with the same SHA-256 digest\<close>
  "no_digest_collision lib s payload =
     list_all (\<lambda>j. sha256_hexdigest lib
                  (correlation_payload lib (job_group_id j) (job_text j) (job_run_at j)) =
                sha256_hexdigest lib payload \<longrightarrow>
                correlation_payload lib (job_group_id j) (job_text j) (job_run_at j) = payload)
       (jobs s)"

definition keys_generated :: "lib \<Rightarrow> state \<Rightarrow> bool" where
  \<comment> \<open>every row carries the key that \<^verbatim>\<open>schedule_job\<close> generates from the row's own fields,
      as it does when no caller passes a key of its own\<close>
  "keys_generated lib s =
     list_all (\<lambda>j. job_correlation_key j =
                Some (generate_correlation_key lib (job_group_id j) (job_text j) (job_run_at j)))
       (jobs s)"

section \<open>Rows and requests named in the claims\<close>

definition row_step :: "nat \<Rightarrow> JobStatus list \<Rightarrow> JobStatus list \<Rightarrow> job \<Rightarrow> job \<Rightarrow> bool" where
  \<comment> \<open>how an operation on Job \<open>i\<close> may leave a row: as it was, or, for the row of Job \<open>i\<close>
      in one of the states \<open>before\<close>, in one of the states \<open>after\<close>, carrying a \<^verbatim>\<open>last_error\<close>
      exactly when it is Failed, with nothing but \<^verbatim>\<open>status\<close> and \<^verbatim>\<open>last_error\<close> changed\<close>
  "row_step i before after j j' =
     (j' = j \<or>
      (job_id j = i \<and> job_status j \<in> set before \<and> job_status j' \<in> set after \<and>
       (job_last_error j' = None) = (job_status j' \<noteq> FAILED) \<and>
       j'\<lparr>job_status := job_status j, job_last_error := job_last_error j\<rparr> = j))"

definition job_message :: "job \<Rightarrow> wa_message" where
  \<comment> \<open>the request that the executor makes for a Job: to the Job's own \<^verbatim>\<open>group_id\<close>\<close>
  "job_message job =
     TextMessage (job_group_id job) (job_text job)
       (if endswith (job_group_id job) ''@g.us'' then ''group'' else ''individual'')"

section \<open>Example data\<close>

definition demo_settings :: settings where
  "demo_settings =
     \<lparr>owner_wa_id = ''owner-wa-id'', wa_phone_number_id = ''123456789'',
      message_window_hours = 12\<rparr>"

definition demo_isoformat :: "datetime \<Rightarrow> string" where
  \<comment> \<open>a stand-in for \<^verbatim>\<open>isoformat\<close>: the instant in decimal\<close>
  "demo_isoformat t = (if t < 0 then ''-'' @ str_nat (nat (- t)) else str_nat (nat t))"

definition demo_lib :: lib where
  "demo_lib =
     \<lparr>sha256_hexdigest = (\<lambda>payload. payload),
      isoformat = demo_isoformat,
      parse_natural_datetime = (\<lambda>base phrase. None),
      strftime_local = demo_isoformat\<rparr>"

definition demo_group :: group_row where
  "demo_group =
     \<lparr>grp_id = 1, grp_alias = ''team'', grp_group_id = ''12345@g.us'',
      grp_group_name = Some ''Team'', grp_created_at = 0\<rparr>"

definition demo_job :: job where
  "demo_job =
     \<lparr>job_id = 1, job_group_id = ''12345@g.us'', job_group_alias = ''team'',
      job_text = ''Hello'', job_run_at = 50, job_created_by = ''owner-wa-id'',
      job_created_at = 0, job_celery_task_id = Some ''task-0'', job_status = SCHEDULED,
      job_last_error = None, job_correlation_key = Some ''12345@g.us|Hello|50''\<rparr>"

definition demo_pending :: pending_schedule where
  "demo_pending =
     \<lparr>pend_owner_id = ''owner-wa-id'', pend_group_alias = ''team'', pend_run_at = 50,
      pend_created_at = Some 0\<rparr>"

definition demo_state :: state where
  "demo_state =
     \<lparr>jobs = [demo_job], groups = [demo_group], pending_schedules = [demo_pending],
      message_correlations = [], celery_calls = [SendTask 1 50 ''task-0''], wa_calls = []\<rparr>"

definition demo_registry :: state where
  \<comment> \<open>one registered group and nothing else\<close>
  "demo_registry =
     \<lparr>jobs = [], groups = [demo_group], pending_schedules = [],
      message_correlations = [], celery_calls = [], wa_calls = []\<rparr>"

definition demo_scheduled :: state where
  \<comment> \<open>\<open>demo_registry\<close> after \<open>demo_job\<close> has been scheduled\<close>
  "demo_scheduled =
     demo_registry\<lparr>jobs := [demo_job], celery_calls := [SendTask 1 50 ''task-0'']\<rparr>"

definition demo_concurrent :: "state \<Rightarrow> state" where
  \<comment> \<open>another transaction commits \<open>demo_job\<close>\<close>
  "demo_concurrent s = s\<lparr>jobs := jobs s @ [demo_job]\<rparr>"

definition grace_job_1 :: job where
  "grace_job_1 =
     \<lparr>job_id = 1, job_group_id = ''12345@g.us'', job_group_alias = ''team'',
      job_text = ''Hi'', job_run_at = 11000000, job_created_by = ''owner-wa-id'',
      job_created_at = 1000000, job_celery_task_id = Some ''task-1'', job_status = SCHEDULED,
      job_last_error = None, job_correlation_key = Some ''12345@g.us|Hi|11000000''\<rparr>"

definition grace_job_2 :: job where
  "grace_job_2 =
     \<lparr>job_id = 2, job_group_id = ''12345@g.us'', job_group_alias = ''team'',
      job_text = ''Hi'', job_run_at = 12000000, job_created_by = ''owner-wa-id'',
      job_created_at = 2000000, job_celery_task_id = Some ''task-2'', job_status = SCHEDULED,
      job_last_error = None, job_correlation_key = Some ''12345@g.us|Hi|12000000''\<rparr>"

definition demo_failed :: state where
  \<comment> \<open>\<open>demo_scheduled\<close> with the Job failed\<close>
  "demo_failed =
     demo_scheduled\<lparr>jobs := [demo_job\<lparr>job_status := FAILED, job_last_error := Some ''boom''\<rparr>]\<rparr>"

definition demo_cancelled :: state where
  \<comment> \<open>\<open>demo_scheduled\<close> with the Job cancelled\<close>
  "demo_cancelled = demo_scheduled\<lparr>jobs := [demo_job\<lparr>job_status := CANCELLED\<rparr>]\<rparr>"

definition demo_correlation :: message_correlation where
  "demo_correlation =
     \<lparr>corr_id = 1, corr_bot_message_id = ''wamid.1'', corr_group_id = ''12345@g.us'',
      corr_job_id = 1, corr_original_message_id = None,
      corr_window_expires_at = 60 + hours 12, corr_created_at = 60\<rparr>"

definition demo_correlated :: state where
  \<comment> \<open>\<open>demo_scheduled\<close> with a correlation row for the Job\<close>
  "demo_correlated = demo_scheduled\<lparr>message_correlations := [demo_correlation]\<rparr>"

definition demo_correlation_2 :: message_correlation where
  "demo_correlation_2 =
     \<lparr>corr_id = 2, corr_bot_message_id = ''wamid.2'', corr_group_id = ''12345@g.us'',
      corr_job_id = 2, corr_original_message_id = None,
      corr_window_expires_at = 70 + hours 12, corr_created_at = 70\<rparr>"

definition demo_replies :: state where
  \<comment> \<open>two messages have gone out to the same group\<close>
  "demo_replies = demo_registry\<lparr>message_correlations := [demo_correlation, demo_correlation_2]\<rparr>"

definition demo_provider_no_id :: provider where
  \<comment> \<open>the provider accepts the request and returns no message id\<close>
  "demo_provider_no_id m = Inr []"

definition demo_provider :: provider where
  "demo_provider m = Inr [Some ''wamid.1'']"

definition demo_message :: incoming_message where
  "demo_message =
     \<lparr>msg_sender_wa_id = ''stranger'', msg_sender_name = None, msg_message_id = ''msg-1'',
      msg_timestamp = 0, msg_message_type = ''text'', msg_text = Some ''list'',
      msg_button_payload = None, msg_button_title = None, msg_context_message_id = None,
      msg_group_id = None, msg_group_name = None, msg_is_group = False\<rparr>"

section \<open>Evaluation and general lemmas\<close>

lemmas eval_simps = lower_def lower_char_def code_def scalar_one_or_none_def to_utc_def
  minutes_def seconds_def hours_def truthy_def next_id_def generate_correlation_key_def correlation_payload_def
  demo_isoformat_def str_nat.simps char_of_def bit_Suc_0_iff Let_def
  demo_lib_def demo_group_def demo_job_def demo_state_def demo_registry_def demo_settings_def
  demo_scheduled_def demo_pending_def demo_failed_def demo_cancelled_def demo_correlation_def
  demo_correlated_def demo_provider_no_id_def demo_provider_def demo_correlation_2_def
  demo_replies_def

section \<open>The command interpreter: the two-phase form\<close>

lemma parse_owner_command_never_schedule_config:
  "parse_owner_command message \<noteq> Inr (ScheduleConfigCommand a w)"
  by (simp add: parse_owner_command_def Let_def split: option.splits)

text \<open>
  Claim C1.  An input \<^verbatim>\<open>schedule to <alias> at <when>\<close> with no quoted text should parse to
  \<open>ScheduleConfig(alias, when)\<close>.  The interpreter of \<^verbatim>\<open>app/commands.py\<close> has no pattern for
  this form: on the input that the repository's own test of the two-step flow sends,
  \<^verbatim>\<open>schedule to team at tomorrow 08:55\<close>, no pattern matches and \<^verbatim>\<open>CommandParseError\<close> is
  raised.
\<close>

theorem parse_owner_command_two_phase_form:
  "parse_owner_command ''schedule to team at tomorrow 08:55'' = Inl CommandParseError"
  by code_simp

section \<open>Messages from other senders\<close>

text \<open>
  Claim C9.  A direct message whose sender is not the configured owner is dropped: the
  handler returns normally and the state after it (tables, requests to the dispatcher,
  requests to the provider) is the state before it.
\<close>

theorem process_owner_message_other_sender:
  assumes "msg_sender_wa_id message \<noteq> owner_wa_id settings"
  shows "process_owner_message lib settings provider now task_id message s = (Inr (), s)"
  using assms by (simp add: process_owner_message_def session_scope_def)

theorem process_owner_message_other_sender_witness:
  "msg_sender_wa_id demo_message \<noteq> owner_wa_id demo_settings \<and>
   process_owner_message demo_lib demo_settings demo_provider 100 ''task-1'' demo_message
     demo_state = (Inr (), demo_state)"
proof -
  have other: "msg_sender_wa_id demo_message \<noteq> owner_wa_id demo_settings"
    by (simp add: demo_message_def demo_settings_def)
  from process_owner_message_other_sender [OF other] other show ?thesis by simp
qed

section \<open>The two-phase flow: empty content\<close>

lemma rollback_wa_calls: "rollback s (s\<lparr>wa_calls := w\<rparr>) = s\<lparr>wa_calls := w\<rparr>"
  by (simp add: rollback_def)

lemma reply_result:
  "reply settings provider body s =
     (case provider (TextMessage (owner_wa_id settings) body ''individual'') of
        Inl e \<Rightarrow> Inl e | Inr r \<Rightarrow> Inr (),
      s\<lparr>wa_calls := wa_calls s @
            [(TextMessage (owner_wa_id settings) body ''individual'',
              provider (TextMessage (owner_wa_id settings) body ''individual''))]\<rparr>)"
  by (simp add: reply_def and_then_def send_text_message_def return_ok_def Let_def
      split: sum.splits)

lemma parse_owner_command_blank:
  assumes "strip body = []"
  shows "parse_owner_command body = Inl CommandParseError"
  using assms
  by (simp add: parse_owner_command_def re_match_def SCHEDULE_RE_def REGISTER_RE_def
      UNREGISTER_RE_def CANCEL_RE_def LIST_RE_def GROUPS_RE_def lit_matches_def)

lemma complete_pending_schedule_blank:
  assumes "strip content_text = []"
  shows "complete_pending_schedule lib settings provider now task_id pending content_text s =
     reply settings provider
       ''Cannot schedule an empty message. Please send the content text.'' s"
  using assms by (simp add: complete_pending_schedule_def)

lemma process_owner_message_blank:
  assumes "msg_sender_wa_id message = owner_wa_id settings"
    and "get_pending_schedule (owner_wa_id settings) s = Inr (Some pending)"
    and "\<not> truthy (msg_button_payload message)"
    and "msg_text message = Some body" and "body \<noteq> []" and "strip body = []"
  shows "snd (process_owner_message lib settings provider now task_id message s) =
     snd (reply settings provider
       ''Cannot schedule an empty message. Please send the content text.'' s)"
  using assms
  by (simp add: process_owner_message_def session_scope_def parse_owner_command_blank
      complete_pending_schedule_blank reply_result rollback_wa_calls split: sum.splits)

text \<open>
  Claim C8.  When the content that arrives for an armed pending schedule is empty or
  whitespace only, \<^verbatim>\<open>_complete_pending_schedule\<close> does one thing: it asks the provider to send
  the owner the notice ``Cannot schedule an empty message. Please send the content text.''
  The tables are as before: the pending row is kept, no Job is created, nothing is sent to
  the dispatcher.  A whitespace-only text message of the owner reaches this function
  through \<^verbatim>\<open>process_owner_message\<close> with the same effect on the state.
\<close>

theorem complete_pending_schedule_empty_content:
  assumes blank: "strip content_text = []"
  shows "complete_pending_schedule lib settings provider now task_id pending content_text s =
      (case provider (TextMessage (owner_wa_id settings)
              ''Cannot schedule an empty message. Please send the content text.''
              ''individual'') of
         Inl e \<Rightarrow> Inl e | Inr r \<Rightarrow> Inr (),
       s\<lparr>wa_calls := wa_calls s @
            [(TextMessage (owner_wa_id settings)
                ''Cannot schedule an empty message. Please send the content text.''
                ''individual'',
              provider (TextMessage (owner_wa_id settings)
                ''Cannot schedule an empty message. Please send the content text.''
                ''individual''))]\<rparr>) \<and>
    (msg_sender_wa_id message = owner_wa_id settings \<and>
     get_pending_schedule (owner_wa_id settings) s = Inr (Some pending) \<and>
     \<not> truthy (msg_button_payload message) \<and>
     msg_text message = Some content_text \<and> content_text \<noteq> [] \<longrightarrow>
     snd (process_owner_message lib settings provider now task_id message s) =
       s\<lparr>wa_calls := wa_calls s @
            [(TextMessage (owner_wa_id settings)
                ''Cannot schedule an empty message. Please send the content text.''
                ''individual'',
              provider (TextMessage (owner_wa_id settings)
                ''Cannot schedule an empty message. Please send the content text.''
                ''individual''))]\<rparr>)"
proof (intro conjI impI)
  from blank show "complete_pending_schedule lib settings provider now task_id pending
      content_text s =
      (case provider (TextMessage (owner_wa_id settings)
              ''Cannot schedule an empty message. Please send the content text.''
              ''individual'') of
         Inl e \<Rightarrow> Inl e | Inr r \<Rightarrow> Inr (),
       s\<lparr>wa_calls := wa_calls s @
            [(TextMessage (owner_wa_id settings)
                ''Cannot schedule an empty message. Please send the content text.''
                ''individual'',
              provider (TextMessage (owner_wa_id settings)
                ''Cannot schedule an empty message. Please send the content text.''
                ''individual''))]\<rparr>)"
    by (simp add: complete_pending_schedule_blank reply_result)
next
  assume "msg_sender_wa_id message = owner_wa_id settings \<and>
     get_pending_schedule (owner_wa_id settings) s = Inr (Some pending) \<and>
     \<not> truthy (msg_button_payload message) \<and>
     msg_text message = Some content_text \<and> content_text \<noteq> []"
  with blank
  have "snd (process_owner_message lib settings provider now task_id message s) =
     snd (reply settings provider
       ''Cannot schedule an empty message. Please send the content text.'' s)"
    by (intro process_owner_message_blank) simp_all
  then show "snd (process_owner_message lib settings provider now task_id message s) =
       s\<lparr>wa_calls := wa_calls s @
            [(TextMessage (owner_wa_id settings)
                ''Cannot schedule an empty message. Please send the content text.''
                ''individual'',
              provider (TextMessage (owner_wa_id settings)
                ''Cannot schedule an empty message. Please send the content text.''
                ''individual''))]\<rparr>"
    by (simp add: reply_result)
qed

theorem complete_pending_schedule_empty_content_witness:
  "strip ''   '' = [] \<and>
   complete_pending_schedule demo_lib demo_settings demo_provider 100 ''task-1'' demo_pending
       ''   '' demo_state =
     (Inr (),
      demo_state\<lparr>wa_calls :=
        [(TextMessage ''owner-wa-id''
            ''Cannot schedule an empty message. Please send the content text.'' ''individual'',
          Inr [Some ''wamid.1''])]\<rparr>) \<and>
   pending_schedules (snd (process_owner_message demo_lib demo_settings demo_provider 100
       ''task-1'' (demo_message\<lparr>msg_sender_wa_id := ''owner-wa-id'', msg_text := Some ''   ''\<rparr>)
       demo_state)) = [demo_pending] \<and>
   jobs (snd (process_owner_message demo_lib demo_settings demo_provider 100
       ''task-1'' (demo_message\<lparr>msg_sender_wa_id := ''owner-wa-id'', msg_text := Some ''   ''\<rparr>)
       demo_state)) = [demo_job]"
proof -
  have blank: "strip ''   '' = []"
    by (simp add: strip_def is_space_def code_def)
  have armed: "get_pending_schedule (owner_wa_id demo_settings) demo_state =
      Inr (Some demo_pending)"
    by (simp add: get_pending_schedule_def eval_simps)
  note empty = complete_pending_schedule_empty_content [OF blank,
      of demo_lib demo_settings demo_provider 100 "''task-1''" demo_pending demo_state
        "demo_message\<lparr>msg_sender_wa_id := ''owner-wa-id'', msg_text := Some ''   ''\<rparr>"]
  from empty armed blank show ?thesis
    by (simp add: demo_message_def demo_settings_def demo_provider_def demo_state_def truthy_def)
qed

section \<open>Scheduling: grace adjustment, idempotence, conflicting inserts\<close>

lemma filter_absent_key:
  "k \<notin> set (List.map_filter f xs) \<Longrightarrow> filter (\<lambda>x. f x = Some k) xs = []"
  by (induction xs) (auto split: option.splits)

lemma filter_unique_key:
  assumes "distinct (List.map_filter f xs)"
  shows "filter (\<lambda>x. f x = Some k) xs = [] \<or> (\<exists>x. filter (\<lambda>x. f x = Some k) xs = [x])"
  using assms
proof (induction xs)
  case Nil
  then show ?case by simp
next
  case (Cons a xs)
  show ?case
  proof (cases "f a = Some k")
    case True
    with Cons.prems have "k \<notin> set (List.map_filter f xs)"
      by simp
    then have "filter (\<lambda>x. f x = Some k) xs = []"
      by (rule filter_absent_key)
    with True show ?thesis by simp
  next
    case False
    from Cons.prems have "distinct (List.map_filter f xs)"
      by (simp split: option.splits)
    with Cons.IH False show ?thesis by simp
  qed
qed

lemma last_segment_eq:
  assumes "xs @ c # ys = xs' @ c # ys'" and "c \<notin> set ys" and "c \<notin> set ys'"
  shows "ys = ys'"
proof -
  from assms(1) have "rev ys @ c # rev xs = rev ys' @ c # rev xs'"
    by (metis rev_append rev.simps(2) append_assoc append_Cons append_Nil rev_rev_ident)
  then have "takeWhile (\<lambda>x. x \<noteq> c) (rev ys @ c # rev xs) =
             takeWhile (\<lambda>x. x \<noteq> c) (rev ys' @ c # rev xs')"
    by simp
  moreover have "takeWhile (\<lambda>x. x \<noteq> c) (rev ys @ c # rev xs) = rev ys"
    using assms(2) by (auto simp add: takeWhile_tail takeWhile_eq_all_conv)
  moreover have "takeWhile (\<lambda>x. x \<noteq> c) (rev ys' @ c # rev xs') = rev ys'"
    using assms(3) by (auto simp add: takeWhile_tail takeWhile_eq_all_conv)
  ultimately show ?thesis by simp
qed

lemma correlation_payload_run_at:
  assumes "inj (isoformat lib)"
    and "\<And>t. CHR ''|'' \<notin> set (isoformat lib t)"
    and "correlation_payload lib g t r = correlation_payload lib g' t' r'"
  shows "r = r'"
proof -
  from assms(3) have "(g @ ''|'' @ t) @ CHR ''|'' # isoformat lib r =
      (g' @ ''|'' @ t') @ CHR ''|'' # isoformat lib r'"
    by (simp add: correlation_payload_def)
  then have "isoformat lib r = isoformat lib r'"
    by (rule last_segment_eq) (rule assms(2))+
  with assms(1) show ?thesis by (simp add: inj_eq)
qed

lemma schedule_job_past:
  assumes "filter (\<lambda>g. grp_alias g = lower group_alias) (groups s) = [grp]"
    and "run_at \<le> now" and "now - run_at > minutes 5"
  shows "schedule_job lib now task_id group_alias text run_at created_by None s =
     (Inl (ValueError ''Scheduled time is in the past.''), s)"
  using assms
  by (simp add: schedule_job_def schedule_job_under_def scalar_one_or_none_def to_utc_def)

lemma schedule_job_existing:
  assumes "filter (\<lambda>g. grp_alias g = lower group_alias) (groups s) = [grp]"
    and "run_at' = (if run_at \<le> now then now + seconds 10 else run_at)"
    and "run_at \<le> now \<longrightarrow> now - run_at \<le> minutes 5"
    and "filter (\<lambda>j. job_correlation_key j =
           Some (generate_correlation_key lib (grp_group_id grp) text run_at')) (jobs s) = [j]"
  shows "schedule_job_under concurrent lib now task_id group_alias text run_at created_by None s =
     (Inr j, s)"
  using assms
  by (cases "run_at \<le> now")
    (simp_all add: schedule_job_under_def scalar_one_or_none_def to_utc_def truthy_def)

lemma schedule_job_new:
  assumes "filter (\<lambda>g. grp_alias g = lower group_alias) (groups s) = [grp]"
    and "run_at' = (if run_at \<le> now then now + seconds 10 else run_at)"
    and "run_at \<le> now \<longrightarrow> now - run_at \<le> minutes 5"
    and "filter (\<lambda>j. job_correlation_key j =
           Some (generate_correlation_key lib (grp_group_id grp) text run_at')) (jobs s) = []"
    and "job = \<lparr>job_id = next_id (map job_id (jobs s)),
                    job_group_id = grp_group_id grp,
                    job_group_alias = grp_alias grp,
                    job_text = text,
                    job_run_at = run_at',
                    job_created_by = created_by,
                    job_created_at = now,
                    job_celery_task_id = Some task_id,
                    job_status = SCHEDULED,
                    job_last_error = None,
                    job_correlation_key =
                      Some (generate_correlation_key lib (grp_group_id grp) text run_at')\<rparr>"
  shows "schedule_job lib now task_id group_alias text run_at created_by None s =
     (Inr job, s\<lparr>jobs := jobs s @ [job],
                celery_calls := celery_calls s @ [SendTask (job_id job) run_at' task_id]\<rparr>)"
proof -
  from assms(4) have "Some (generate_correlation_key lib (grp_group_id grp) text run_at')
      \<notin> job_correlation_key ` set (jobs s)"
    by (auto simp: filter_empty_conv)
  with assms show ?thesis
    by (cases "run_at \<le> now")
      (simp_all add: schedule_job_def schedule_job_under_def scalar_one_or_none_def to_utc_def
        truthy_def Let_def)
qed


lemma code_digit: "k < 10 \<Longrightarrow> code (char_of (48 + k)) = 48 + k"
  by (simp add: code_def)

lemma str_nat_nonempty: "str_nat n \<noteq> []"
  by (subst str_nat.simps) simp

lemma str_nat_digits: "c \<in> set (str_nat n) \<Longrightarrow> is_digit c"
proof (induction n rule: str_nat.induct)
  case (1 n)
  show ?case
  proof (cases "n < 10")
    case True
    with "1.prems" have "c = char_of (48 + n)"
      by (subst (asm) str_nat.simps) simp
    with True show ?thesis by (simp add: is_digit_def code_digit)
  next
    case False
    with "1.prems" have "c \<in> set (str_nat (n div 10)) \<or> c = char_of (48 + n mod 10)"
      by (subst (asm) str_nat.simps) auto
    then show ?thesis
    proof
      assume "c \<in> set (str_nat (n div 10))"
      with False "1.IH" show ?thesis by simp
    next
      assume "c = char_of (48 + n mod 10)"
      then show ?thesis by (simp add: is_digit_def code_digit)
    qed
  qed
qed

lemma digit_inj:
  "(a::nat) < 10 \<Longrightarrow> (b::nat) < 10 \<Longrightarrow> char_of (48 + a) = (char_of (48 + b) :: char) \<Longrightarrow> a = b"
proof -
  assume a: "a < 10" and b: "b < 10" and eq: "char_of (48 + a) = (char_of (48 + b) :: char)"
  from eq have "code (char_of (48 + a)) = code (char_of (48 + b))" by (rule arg_cong)
  with a b show "a = b" by (simp add: code_digit)
qed

lemma str_nat_inj: "str_nat n = str_nat m \<Longrightarrow> n = m"
proof (induction n arbitrary: m rule: str_nat.induct)
  case (1 n)
  show ?case
  proof (cases "n < 10")
    case n: True
    show ?thesis
    proof (cases "m < 10")
      case True
      with n "1.prems" have "char_of (48 + n) = (char_of (48 + m) :: char)"
        by (simp add: str_nat.simps [of n] str_nat.simps [of m])
      with n True show ?thesis by (rule digit_inj)
    next
      case False
      with n "1.prems" have "str_nat (m div 10) = []"
        by (simp add: str_nat.simps [of n] str_nat.simps [of m])
      with str_nat_nonempty show ?thesis by blast
    qed
  next
    case n: False
    show ?thesis
    proof (cases "m < 10")
      case True
      with n "1.prems" have "str_nat (n div 10) = []"
        by (simp add: str_nat.simps [of n] str_nat.simps [of m])
      with str_nat_nonempty show ?thesis by blast
    next
      case False
      with n "1.prems" have tl: "str_nat (n div 10) = str_nat (m div 10)"
        and hd: "char_of (48 + n mod 10) = (char_of (48 + m mod 10) :: char)"
        by (simp_all add: str_nat.simps [of n] str_nat.simps [of m])
      from n tl "1.IH" have "n div 10 = m div 10" by simp
      moreover from hd have "n mod 10 = m mod 10" by (intro digit_inj) simp_all
      ultimately show ?thesis by (metis div_mult_mod_eq)
    qed
  qed
qed

lemma demo_isoformat_chars: "c \<in> set (demo_isoformat t) \<Longrightarrow> c = CHR ''-'' \<or> is_digit c"
  by (auto simp: demo_isoformat_def dest: str_nat_digits split: if_splits)

lemma demo_isoformat_no_bar: "CHR ''|'' \<notin> set (demo_isoformat t)"
  using demo_isoformat_chars [of "CHR ''|''" t] by (auto simp: is_digit_def code_def)

lemma inj_demo_isoformat: "inj demo_isoformat"
proof (rule injI)
  fix x y assume eq: "demo_isoformat x = demo_isoformat y"
  have minus: "\<not> is_digit CHR ''-''" by (simp add: is_digit_def code_def)
  have neg: "CHR ''-'' # str_nat a \<noteq> str_nat b" for a b
  proof
    assume "CHR ''-'' # str_nat a = str_nat b"
    then have "CHR ''-'' \<in> set (str_nat b)" by (metis list.set_intros(1))
    with minus show False by (auto dest: str_nat_digits)
  qed
  show "x = y"
  proof (cases "x < 0")
    case x: True
    show ?thesis
    proof (cases "y < 0")
      case True
      with x eq have "nat (- x) = nat (- y)" by (simp add: demo_isoformat_def str_nat_inj)
      with x True show ?thesis by simp
    next
      case False
      with x eq neg show ?thesis by (simp add: demo_isoformat_def)
    qed
  next
    case x: False
    show ?thesis
    proof (cases "y < 0")
      case True
      with x eq neg [of "nat (- y)" "nat x"] show ?thesis by (simp add: demo_isoformat_def)
    next
      case False
      with x eq have "nat x = nat y" by (simp add: demo_isoformat_def str_nat_inj)
      with x False show ?thesis by simp
    qed
  qed
qed




text \<open>
  The unique constraint and the generated keys are kept by \<^verbatim>\<open>schedule_job\<close> when no caller
  passes a key of its own.
\<close>

lemma schedule_job_keeps_constraints:
  assumes uq: "uq_correlation_key s" and gen: "keys_generated lib s"
    and call: "schedule_job lib now task_id group_alias text run_at created_by None s = (r, s')"
  shows "uq_correlation_key s' \<and> keys_generated lib s'"
proof (cases "jobs s' = jobs s")
  case True
  with uq gen show ?thesis by (simp add: uq_correlation_key_def keys_generated_def)
next
  case False
  with call obtain job where new: "jobs s' = jobs s @ [job]"
    "job_correlation_key job =
       Some (generate_correlation_key lib (job_group_id job) (job_text job) (job_run_at job))"
    "job_correlation_key job \<notin> set (map job_correlation_key (jobs s))"
    by (auto simp: schedule_job_def schedule_job_under_def Let_def truthy_def
        split: sum.splits option.splits if_splits)
  from new(2,3) have "generate_correlation_key lib (job_group_id job) (job_text job) (job_run_at job)
      \<notin> set (List.map_filter job_correlation_key (jobs s))"
    by (force simp: map_filter_def)
  with uq gen new show ?thesis
    by (simp add: uq_correlation_key_def keys_generated_def map_filter_def)
qed


text \<open>
  Claim C2.  A schedule request for a registered alias whose \<open>run_at\<close> is not after the clock:
  when it is at most five minutes old, \<^verbatim>\<open>schedule_job\<close> returns a Job whose \<open>run_at\<close> is the
  clock plus ten seconds and whose key is the one generated for that time; the Job is a row
  of the table after the call.  When no row carried that key, the Job is a new row
  (Scheduled, with the resolved destination, the text and the task id) appended to the
  table, and the dispatcher has been asked to fire it at the clock plus ten seconds; when a
  row carried it, that row is returned and the state is unchanged.  When \<open>run_at\<close> is older
  than five minutes, \<^verbatim>\<open>schedule_job\<close> raises \<^verbatim>\<open>ValueError("Scheduled time is in the past.")\<close> and
  the state is the one before the call, so no Job is created.  The table satisfies its
  unique constraint, its keys are the generated ones, and no row's payload has the digest of
  the request's payload unless it is that payload; \<^verbatim>\<open>isoformat\<close> is one-to-one and writes no
  vertical bar.
\<close>

theorem schedule_job_grace_adjustment:
  assumes registered: "filter (\<lambda>g. grp_alias g = lower group_alias) (groups s) = [grp]"
    and uq: "uq_correlation_key s"
    and gen: "keys_generated lib s"
    and sha: "no_digest_collision lib s
                (correlation_payload lib (grp_group_id grp) text (now + seconds 10))"
    and iso: "inj (isoformat lib)"
    and bar: "\<And>t. CHR ''|'' \<notin> set (isoformat lib t)"
    and past: "run_at \<le> now"
  shows "(now - run_at \<le> minutes 5 \<longrightarrow>
           (\<exists>job s'. schedule_job lib now task_id group_alias text run_at created_by None s =
                       (Inr job, s') \<and>
                     job_run_at job = now + seconds 10 \<and>
                     job_correlation_key job =
                       Some (generate_correlation_key lib (grp_group_id grp) text
                               (now + seconds 10)) \<and>
                     job \<in> set (jobs s') \<and>
                     (if filter (\<lambda>j. job_correlation_key j =
                            Some (generate_correlation_key lib (grp_group_id grp) text
                                    (now + seconds 10))) (jobs s) = []
                      then job =
                             \<lparr>job_id = next_id (map job_id (jobs s)),
                              job_group_id = grp_group_id grp,
                              job_group_alias = grp_alias grp,
                              job_text = text,
                              job_run_at = now + seconds 10,
                              job_created_by = created_by,
                              job_created_at = now,
                              job_celery_task_id = Some task_id,
                              job_status = SCHEDULED,
                              job_last_error = None,
                              job_correlation_key =
                                Some (generate_correlation_key lib (grp_group_id grp) text
                                        (now + seconds 10))\<rparr> \<and>
                           s' = s\<lparr>jobs := jobs s @ [job],
                                  celery_calls := celery_calls s @
                                    [SendTask (job_id job) (now + seconds 10) task_id]\<rparr>
                      else job \<in> set (jobs s) \<and> s' = s))) \<and>
         (now - run_at > minutes 5 \<longrightarrow>
           schedule_job lib now task_id group_alias text run_at created_by None s =
             (Inl (ValueError ''Scheduled time is in the past.''), s))"
proof (intro conjI impI)
  assume near: "now - run_at \<le> minutes 5"
  let ?key = "generate_correlation_key lib (grp_group_id grp) text (now + seconds 10)"
  let ?rows = "filter (\<lambda>j. job_correlation_key j = Some ?key) (jobs s)"
  let ?new = "\<lparr>job_id = next_id (map job_id (jobs s)),
                job_group_id = grp_group_id grp,
                job_group_alias = grp_alias grp,
                job_text = text,
                job_run_at = now + seconds 10,
                job_created_by = created_by,
                job_created_at = now,
                job_celery_task_id = Some task_id,
                job_status = SCHEDULED,
                job_last_error = None,
                job_correlation_key = Some ?key\<rparr>"
  have adj: "now + seconds 10 = (if run_at \<le> now then now + seconds 10 else run_at)"
    using past by simp
  have ok: "run_at \<le> now \<longrightarrow> now - run_at \<le> minutes 5"
    using near by simp
  from uq have "?rows = [] \<or> (\<exists>j. ?rows = [j])"
    unfolding uq_correlation_key_def by (rule filter_unique_key)
  then show "\<exists>job s'. schedule_job lib now task_id group_alias text run_at created_by None s =
                       (Inr job, s') \<and>
                     job_run_at job = now + seconds 10 \<and>
                     job_correlation_key job = Some ?key \<and>
                     job \<in> set (jobs s') \<and>
                     (if ?rows = []
                      then job = ?new \<and>
                           s' = s\<lparr>jobs := jobs s @ [job],
                                  celery_calls := celery_calls s @
                                    [SendTask (job_id job) (now + seconds 10) task_id]\<rparr>
                      else job \<in> set (jobs s) \<and> s' = s)"
  proof
    assume none: "?rows = []"
    from schedule_job_new [OF registered adj ok none refl,
        where created_by = created_by and task_id = task_id]
    have "schedule_job lib now task_id group_alias text run_at created_by None s =
        (Inr ?new, s\<lparr>jobs := jobs s @ [?new],
                      celery_calls := celery_calls s @
                        [SendTask (job_id ?new) (now + seconds 10) task_id]\<rparr>)" .
    with none show ?thesis by simp
  next
    assume "\<exists>j. ?rows = [j]"
    then obtain j where one: "?rows = [j]" ..
    then have "j \<in> set ?rows" by simp
    then have mem: "j \<in> set (jobs s)" and key: "job_correlation_key j = Some ?key"
      by simp_all
    let ?mine = "correlation_payload lib (job_group_id j) (job_text j) (job_run_at j)"
    let ?payload = "correlation_payload lib (grp_group_id grp) text (now + seconds 10)"
    from gen mem have "job_correlation_key j = Some (sha256_hexdigest lib ?mine)"
      by (simp add: keys_generated_def list_all_iff generate_correlation_key_def)
    with key have "sha256_hexdigest lib ?mine = sha256_hexdigest lib ?payload"
      by (simp add: generate_correlation_key_def)
    with sha mem have "?mine = ?payload"
      by (simp add: no_digest_collision_def list_all_iff)
    with iso bar have run: "job_run_at j = now + seconds 10"
      by (rule correlation_payload_run_at)
    from schedule_job_existing [OF registered adj ok one]
    have "schedule_job lib now task_id group_alias text run_at created_by None s = (Inr j, s)"
      by (simp add: schedule_job_def)
    with run key mem one show ?thesis by simp
  qed
next
  assume "now - run_at > minutes 5"
  with registered past
  show "schedule_job lib now task_id group_alias text run_at created_by None s =
      (Inl (ValueError ''Scheduled time is in the past.''), s)"
    by (rule schedule_job_past)
qed

theorem schedule_job_grace_adjustment_witness:
  "schedule_job demo_lib 40 ''task-1'' ''Team'' ''Hello'' 40 ''owner-wa-id'' None demo_state =
     (Inr \<lparr>job_id = 2, job_group_id = ''12345@g.us'', job_group_alias = ''team'',
           job_text = ''Hello'', job_run_at = 10000040, job_created_by = ''owner-wa-id'',
           job_created_at = 40, job_celery_task_id = Some ''task-1'', job_status = SCHEDULED,
           job_last_error = None, job_correlation_key = Some ''12345@g.us|Hello|10000040''\<rparr>,
      demo_state\<lparr>
        jobs := [demo_job,
          \<lparr>job_id = 2, job_group_id = ''12345@g.us'', job_group_alias = ''team'',
           job_text = ''Hello'', job_run_at = 10000040, job_created_by = ''owner-wa-id'',
           job_created_at = 40, job_celery_task_id = Some ''task-1'', job_status = SCHEDULED,
           job_last_error = None, job_correlation_key = Some ''12345@g.us|Hello|10000040''\<rparr>],
        celery_calls := [SendTask 1 50 ''task-0'', SendTask 2 10000040 ''task-1'']\<rparr>) \<and>
   schedule_job demo_lib (- 9999950) ''task-1'' ''Team'' ''Hello'' (- 9999950) ''owner-wa-id'' None
       demo_state =
     (Inr demo_job, demo_state) \<and>
   schedule_job demo_lib (minutes 6) ''task-1'' ''Team'' ''Hello'' 0 ''owner-wa-id'' None demo_state =
     (Inl (ValueError ''Scheduled time is in the past.''), demo_state)"
proof -
  have registered: "filter (\<lambda>g. grp_alias g = lower ''Team'') (groups demo_state) = [demo_group]"
    by (simp add: eval_simps)
  have uq: "uq_correlation_key demo_state"
    by (simp add: uq_correlation_key_def eval_simps)
  have gen: "keys_generated demo_lib demo_state"
    by (simp add: keys_generated_def eval_simps)
  have sha: "no_digest_collision demo_lib demo_state payload" for payload
    by (simp add: no_digest_collision_def demo_lib_def list_all_iff)
  have iso: "inj (isoformat demo_lib)"
    by (simp add: demo_lib_def inj_demo_isoformat)
  have bar: "CHR ''|'' \<notin> set (isoformat demo_lib t)" for t
    by (simp add: demo_lib_def demo_isoformat_no_bar)
  have near: "(40::int) \<le> 40" "(40::int) - 40 \<le> minutes 5"
    by (simp_all add: minutes_def)
  have again: "(- 9999950::int) \<le> - 9999950" "(- 9999950::int) - (- 9999950) \<le> minutes 5"
    by (simp_all add: minutes_def)
  have far: "(0::int) \<le> minutes 6" "minutes 6 - 0 > minutes 5"
    by (simp_all add: minutes_def)
  have fresh: "filter (\<lambda>j. job_correlation_key j =
        Some (generate_correlation_key demo_lib (grp_group_id demo_group) ''Hello''
                (40 + seconds 10))) (jobs demo_state) = []"
    by (simp add: eval_simps)
  have known: "filter (\<lambda>j. job_correlation_key j =
        Some (generate_correlation_key demo_lib (grp_group_id demo_group) ''Hello''
                (- 9999950 + seconds 10))) (jobs demo_state) = [demo_job]"
    by (simp add: eval_simps)
  from schedule_job_grace_adjustment [OF registered uq gen
      sha [of "correlation_payload demo_lib (grp_group_id demo_group) ''Hello''
                 (40 + seconds 10)"] iso bar near(1),
      where task_id = "''task-1''" and created_by = "''owner-wa-id''"]
    near(2) fresh
  have "schedule_job demo_lib 40 ''task-1'' ''Team'' ''Hello'' 40 ''owner-wa-id'' None demo_state =
     (Inr \<lparr>job_id = next_id (map job_id (jobs demo_state)),
           job_group_id = grp_group_id demo_group,
           job_group_alias = grp_alias demo_group,
           job_text = ''Hello'',
           job_run_at = 40 + seconds 10,
           job_created_by = ''owner-wa-id'',
           job_created_at = 40,
           job_celery_task_id = Some ''task-1'',
           job_status = SCHEDULED,
           job_last_error = None,
           job_correlation_key =
             Some (generate_correlation_key demo_lib (grp_group_id demo_group) ''Hello''
                     (40 + seconds 10))\<rparr>,
      demo_state\<lparr>
        jobs := jobs demo_state @
          [\<lparr>job_id = next_id (map job_id (jobs demo_state)),
           job_group_id = grp_group_id demo_group,
           job_group_alias = grp_alias demo_group,
           job_text = ''Hello'',
           job_run_at = 40 + seconds 10,
           job_created_by = ''owner-wa-id'',
           job_created_at = 40,
           job_celery_task_id = Some ''task-1'',
           job_status = SCHEDULED,
           job_last_error = None,
           job_correlation_key =
             Some (generate_correlation_key demo_lib (grp_group_id demo_group) ''Hello''
                     (40 + seconds 10))\<rparr>],
        celery_calls := celery_calls demo_state @
          [SendTask (next_id (map job_id (jobs demo_state))) (40 + seconds 10) ''task-1'']\<rparr>)"
    by auto
  then have first:
    "schedule_job demo_lib 40 ''task-1'' ''Team'' ''Hello'' 40 ''owner-wa-id'' None demo_state =
     (Inr \<lparr>job_id = 2, job_group_id = ''12345@g.us'', job_group_alias = ''team'',
           job_text = ''Hello'', job_run_at = 10000040, job_created_by = ''owner-wa-id'',
           job_created_at = 40, job_celery_task_id = Some ''task-1'', job_status = SCHEDULED,
           job_last_error = None, job_correlation_key = Some ''12345@g.us|Hello|10000040''\<rparr>,
      demo_state\<lparr>
        jobs := [demo_job,
          \<lparr>job_id = 2, job_group_id = ''12345@g.us'', job_group_alias = ''team'',
           job_text = ''Hello'', job_run_at = 10000040, job_created_by = ''owner-wa-id'',
           job_created_at = 40, job_celery_task_id = Some ''task-1'', job_status = SCHEDULED,
           job_last_error = None, job_correlation_key = Some ''12345@g.us|Hello|10000040''\<rparr>],
        celery_calls := [SendTask 1 50 ''task-0'', SendTask 2 10000040 ''task-1'']\<rparr>)"
    by (simp add: eval_simps)
  from schedule_job_grace_adjustment [OF registered uq gen
      sha [of "correlation_payload demo_lib (grp_group_id demo_group) ''Hello''
                 (- 9999950 + seconds 10)"] iso bar again(1),
      where task_id = "''task-1''" and created_by = "''owner-wa-id''"]
    again(2) known
  obtain job where "schedule_job demo_lib (- 9999950) ''task-1'' ''Team'' ''Hello'' (- 9999950)
      ''owner-wa-id'' None demo_state = (Inr job, demo_state)"
    and "job \<in> set (jobs demo_state)"
    by auto
  then have second: "schedule_job demo_lib (- 9999950) ''task-1'' ''Team'' ''Hello'' (- 9999950)
      ''owner-wa-id'' None demo_state = (Inr demo_job, demo_state)"
    by (simp add: demo_state_def)
  from schedule_job_grace_adjustment [OF registered uq gen
      sha [of "correlation_payload demo_lib (grp_group_id demo_group) ''Hello''
                 (minutes 6 + seconds 10)"] iso bar far(1),
      where task_id = "''task-1''" and created_by = "''owner-wa-id''"] far(2)
  have third:
    "schedule_job demo_lib (minutes 6) ''task-1'' ''Team'' ''Hello'' 0 ''owner-wa-id'' None
      demo_state = (Inl (ValueError ''Scheduled time is in the past.''), demo_state)"
    by simp
  from first second third show ?thesis by simp
qed

text \<open>
  Claim C3, amended.  Two calls with the same alias, text and \<open>run_at\<close>, against the same
  registered group, with \<open>run_at\<close> after the clock at both calls: both return the same Job,
  the second call changes nothing, and that Job is the only row with its correlation key.
\<close>

theorem schedule_job_idempotent:
  assumes registered: "filter (\<lambda>g. grp_alias g = lower group_alias) (groups s) = [grp]"
    and uq: "uq_correlation_key s"
    and future1: "now1 < run_at" and future2: "now2 < run_at"
    and first: "schedule_job lib now1 task1 group_alias text run_at created_by None s = (r1, s1)"
    and second: "schedule_job lib now2 task2 group_alias text run_at created_by None s1 = (r2, s2)"
  shows "\<exists>job. r1 = Inr job \<and> r2 = Inr job \<and> s2 = s1 \<and>
           filter (\<lambda>j. job_correlation_key j = job_correlation_key job) (jobs s2) = [job]"
proof -
  let ?key = "generate_correlation_key lib (grp_group_id grp) text run_at"
  let ?rows = "filter (\<lambda>j. job_correlation_key j = Some ?key) (jobs s)"
  have adj1: "run_at = (if run_at \<le> now1 then now1 + seconds 10 else run_at)"
    and ok1: "run_at \<le> now1 \<longrightarrow> now1 - run_at \<le> minutes 5"
    and adj2: "run_at = (if run_at \<le> now2 then now2 + seconds 10 else run_at)"
    and ok2: "run_at \<le> now2 \<longrightarrow> now2 - run_at \<le> minutes 5"
    using future1 future2 by simp_all
  from uq have "?rows = [] \<or> (\<exists>j. ?rows = [j])"
    unfolding uq_correlation_key_def by (rule filter_unique_key)
  then show ?thesis
  proof
    assume none: "?rows = []"
    define job where "job = \<lparr>job_id = next_id (map job_id (jobs s)),
                    job_group_id = grp_group_id grp,
                    job_group_alias = grp_alias grp,
                    job_text = text,
                    job_run_at = run_at,
                    job_created_by = created_by,
                    job_created_at = now1,
                    job_celery_task_id = Some task1,
                    job_status = SCHEDULED,
                    job_last_error = None,
                    job_correlation_key = Some ?key\<rparr>"
    from schedule_job_new [OF registered adj1 ok1 none job_def] first
    have r1: "r1 = Inr job"
      and s1: "s1 = s\<lparr>jobs := jobs s @ [job],
                celery_calls := celery_calls s @ [SendTask (job_id job) run_at task1]\<rparr>"
      by simp_all
    have key: "job_correlation_key job = Some ?key" by (simp add: job_def)
    have registered1: "filter (\<lambda>g. grp_alias g = lower group_alias) (groups s1) = [grp]"
      using registered s1 by simp
    have one: "filter (\<lambda>j. job_correlation_key j = Some ?key) (jobs s1) = [job]"
      using none s1 key by simp
    from schedule_job_existing [OF registered1 adj2 ok2 one] second
    have "r2 = Inr job" and "s2 = s1" by (simp_all add: schedule_job_def)
    with r1 one key show ?thesis by simp
  next
    assume "\<exists>j. ?rows = [j]"
    then obtain j where one: "?rows = [j]" ..
    then have "j \<in> set ?rows" by simp
    then have key: "job_correlation_key j = Some ?key" by simp
    from schedule_job_existing [OF registered adj1 ok1 one] first
    have r1: "r1 = Inr j" and s1: "s1 = s" by (simp_all add: schedule_job_def)
    from schedule_job_existing [OF registered adj2 ok2 one] second s1
    have "r2 = Inr j" and "s2 = s1" by (simp_all add: schedule_job_def)
    with r1 s1 one key show ?thesis by simp
  qed
qed

theorem schedule_job_idempotent_witness:
  "schedule_job demo_lib 0 ''task-0'' ''team'' ''Hello'' 50 ''owner-wa-id'' None demo_registry =
     (Inr demo_job, demo_scheduled) \<and>
   schedule_job demo_lib 20 ''task-9'' ''team'' ''Hello'' 50 ''owner-wa-id'' None demo_scheduled =
     (Inr demo_job, demo_scheduled) \<and>
   jobs demo_scheduled = [demo_job]"
proof -
  have first:
    "schedule_job demo_lib 0 ''task-0'' ''team'' ''Hello'' 50 ''owner-wa-id'' None demo_registry =
       (Inr demo_job, demo_scheduled)"
    by (simp add: schedule_job_def schedule_job_under_def eval_simps)
  obtain r2 s2 where second:
    "schedule_job demo_lib 20 ''task-9'' ''team'' ''Hello'' 50 ''owner-wa-id'' None demo_scheduled =
       (r2, s2)"
    by (meson surj_pair)
  have registered: "filter (\<lambda>g. grp_alias g = lower ''team'') (groups demo_registry) = [demo_group]"
    by (simp add: eval_simps)
  have uq: "uq_correlation_key demo_registry"
    by (simp add: uq_correlation_key_def eval_simps)
  from schedule_job_idempotent [OF registered uq _ _ first second]
  have "r2 = Inr demo_job" and "s2 = demo_scheduled" by auto
  with first second show ?thesis by (simp add: demo_scheduled_def)
qed

text \<open>
  The claim as stated fails inside the grace window.  Two calls with the same alias, text
  and \<open>run_at = 0\<close>, one second apart, are adjusted to different fire times, get different
  keys, and leave two Jobs.
\<close>

theorem schedule_job_twice_in_grace_window:
  "schedule_job demo_lib 1000000 ''task-1'' ''team'' ''Hi'' 0 ''owner-wa-id'' None demo_registry =
     (Inr grace_job_1,
      demo_registry\<lparr>jobs := [grace_job_1], celery_calls := [SendTask 1 11000000 ''task-1'']\<rparr>) \<and>
   schedule_job demo_lib 2000000 ''task-2'' ''team'' ''Hi'' 0 ''owner-wa-id'' None
     (demo_registry\<lparr>jobs := [grace_job_1], celery_calls := [SendTask 1 11000000 ''task-1'']\<rparr>) =
     (Inr grace_job_2,
      demo_registry\<lparr>jobs := [grace_job_1, grace_job_2],
        celery_calls := [SendTask 1 11000000 ''task-1'', SendTask 2 12000000 ''task-2'']\<rparr>) \<and>
   grace_job_2 \<noteq> grace_job_1"
  by (simp add: schedule_job_def schedule_job_under_def eval_simps grace_job_1_def grace_job_2_def)

text \<open>
  Claim C5, amended.  When a request has passed the existence check and another transaction
  commits a Job with the same correlation key before the insert, \<^verbatim>\<open>schedule_job\<close> does not
  catch the conflict: \<^verbatim>\<open>IntegrityError\<close> reaches the caller and no Job is returned.
\<close>

theorem schedule_job_conflict_not_caught:
  assumes registered: "filter (\<lambda>g. grp_alias g = lower group_alias) (groups s) = [grp]"
    and future: "now < run_at"
    and unseen: "filter (\<lambda>j. job_correlation_key j =
           Some (generate_correlation_key lib (grp_group_id grp) text run_at)) (jobs s) = []"
    and conflict: "Some (generate_correlation_key lib (grp_group_id grp) text run_at)
           \<in> set (map job_correlation_key (jobs (concurrent s)))"
  shows "schedule_job_under concurrent lib now task_id group_alias text run_at created_by None s =
     (Inl (IntegrityError ''jobs.correlation_key''), concurrent s)"
  using assms
  by (simp add: schedule_job_under_def scalar_one_or_none_def to_utc_def truthy_def Let_def)


theorem schedule_job_conflict_not_caught_witness:
  "schedule_job_under demo_concurrent demo_lib 0 ''task-1'' ''team'' ''Hello'' 50 ''owner-wa-id''
     None demo_registry =
   (Inl (IntegrityError ''jobs.correlation_key''), demo_concurrent demo_registry)"
proof -
  have registered: "filter (\<lambda>g. grp_alias g = lower ''team'') (groups demo_registry) = [demo_group]"
    by (simp add: eval_simps)
  have unseen: "filter (\<lambda>j. job_correlation_key j =
           Some (generate_correlation_key demo_lib (grp_group_id demo_group) ''Hello'' 50))
           (jobs demo_registry) = []"
    by (simp add: eval_simps)
  have conflict: "Some (generate_correlation_key demo_lib (grp_group_id demo_group) ''Hello'' 50)
           \<in> set (map job_correlation_key (jobs (demo_concurrent demo_registry)))"
    by (simp add: demo_concurrent_def eval_simps)
  show ?thesis
    by (rule schedule_job_conflict_not_caught
        [where concurrent = demo_concurrent, OF registered _ unseen conflict]) simp
qed

text \<open>
  The claim as stated fails: in the race above the caller does not get the Job that the
  other transaction persisted.
\<close>

theorem schedule_job_conflict_raises:
  "fst (schedule_job_under demo_concurrent demo_lib 0 ''task-1'' ''team'' ''Hello'' 50
          ''owner-wa-id'' None demo_registry) \<noteq> Inr demo_job \<and>
   jobs (demo_concurrent demo_registry) = [demo_job] \<and>
   job_correlation_key demo_job =
     Some (generate_correlation_key demo_lib ''12345@g.us'' ''Hello'' 50)"
  by (simp add: schedule_job_under_def demo_concurrent_def eval_simps)
section \<open>Job status and the executor\<close>

lemma get_job_id: "get_job i s = Some job \<Longrightarrow> job_id job = i"
  by (auto simp: get_job_def find_Some_iff)

lemma update_first_none: "find p xs = None \<Longrightarrow> update_first p f xs = xs"
  by (induction xs) (auto split: if_splits)

lemma update_first_find:
  "find p xs = Some x \<Longrightarrow> list_all2 (\<lambda>a b. b = a \<or> (a = x \<and> b = f x)) xs (update_first p f xs)"
  by (induction xs) (auto split: if_splits simp: list_all2_same)

lemma find_update_first:
  "find p xs = Some x \<Longrightarrow> p (f x) \<Longrightarrow> find p (update_first p f xs) = Some (f x)"
  by (induction xs) (auto split: if_splits)

lemma row_step_update:
  assumes "get_job i s = Some job" and "row_step i before after job (f job)"
  shows "list_all2 (row_step i before after) (jobs s)
           (update_first (\<lambda>j. job_id j = i) f (jobs s))"
proof -
  from assms(1) have "list_all2 (\<lambda>a b. b = a \<or> (a = job \<and> b = f job)) (jobs s)
      (update_first (\<lambda>j. job_id j = i) f (jobs s))"
    unfolding get_job_def by (rule update_first_find)
  then show ?thesis
    by (rule list_all2_mono) (use assms(2) in \<open>auto simp: row_step_def\<close>)
qed

lemma row_step_same: "list_all2 (row_step i before after) xs xs"
  by (simp add: list_all2_same row_step_def)

lemma jobs_mark_job_sent_missing: "get_job i s = None \<Longrightarrow> mark_job_sent i s = s"
  by (simp add: mark_job_sent_def get_job_def update_first_none)

lemma jobs_mark_job_failed_missing: "get_job i s = None \<Longrightarrow> mark_job_failed i e s = s"
  by (simp add: mark_job_failed_def get_job_def update_first_none)

lemma mark_job_sent_step:
  assumes "get_job i s = Some job" and "job_status job \<in> set before" and "SENT \<in> set after"
  shows "list_all2 (row_step i before after) (jobs s) (jobs (mark_job_sent i s))"
  unfolding mark_job_sent_def using assms
  by (auto intro!: row_step_update simp: row_step_def dest: get_job_id)

lemma mark_job_failed_step:
  assumes "get_job i s = Some job" and "job_status job \<in> set before" and "FAILED \<in> set after"
  shows "list_all2 (row_step i before after) (jobs s) (jobs (mark_job_failed i e s))"
  unfolding mark_job_failed_def using assms
  by (auto intro!: row_step_update simp: row_step_def dest: get_job_id)

lemma get_job_mark_job_sent:
  "get_job i s = Some job \<Longrightarrow>
   get_job i (mark_job_sent i s) = Some (job\<lparr>job_status := SENT, job_last_error := None\<rparr>)"
  unfolding get_job_def mark_job_sent_def
  by (frule find_update_first [where f = "\<lambda>j. j\<lparr>job_status := SENT, job_last_error := None\<rparr>"])
    (auto simp: find_Some_iff)

lemma cancel_job_step:
  "list_all2 (row_step i [SCHEDULED, FAILED] [CANCELLED]) (jobs s) (jobs (snd (cancel_job i s)))"
proof (cases "get_job i s")
  case None
  then show ?thesis by (simp add: cancel_job_def row_step_same)
next
  case (Some job)
  show ?thesis
  proof (cases "job_status job = CANCELLED \<or> job_status job = SENT")
    case True
    with Some show ?thesis by (simp add: cancel_job_def row_step_same)
  next
    case False
    then have "job_status job \<in> set [SCHEDULED, FAILED]"
      by (cases "job_status job") simp_all
    with Some have "list_all2 (row_step i [SCHEDULED, FAILED] [CANCELLED]) (jobs s)
        (update_first (\<lambda>j. job_id j = i)
           (\<lambda>j. j\<lparr>job_status := CANCELLED, job_last_error := None\<rparr>) (jobs s))"
      by (intro row_step_update) (auto simp: row_step_def dest: get_job_id)
    with Some False show ?thesis
      by (simp add: cancel_job_def Let_def split: option.splits)
  qed
qed


lemma on_failure_result: "on_failure e i s = (Inr (), mark_job_failed i (str_exn e) s)"
  by (simp add: on_failure_def session_scope_def)

lemma fire_missing:
  "get_job i s = None \<Longrightarrow>
   fire_send_scheduled_message settings provider now retries i s = (Inr (), s)"
  by (simp add: fire_send_scheduled_message_def send_scheduled_message_def session_scope_def)

lemma fire_final:
  "get_job i s = Some job \<Longrightarrow> job_status job = CANCELLED \<or> job_status job = SENT \<Longrightarrow>
   fire_send_scheduled_message settings provider now retries i s = (Inr (), s)"
  by (auto simp: fire_send_scheduled_message_def send_scheduled_message_def session_scope_def)

lemma fire_correlated:
  "get_job i s = Some job \<Longrightarrow> job_status job \<noteq> CANCELLED \<Longrightarrow> job_status job \<noteq> SENT \<Longrightarrow>
   filter (\<lambda>c. corr_job_id c = i) (message_correlations s) = [c] \<Longrightarrow>
   fire_send_scheduled_message settings provider now retries i s = (Inr (), mark_job_sent i s)"
  by (frule get_job_id)
    (simp add: fire_send_scheduled_message_def send_scheduled_message_def session_scope_def
      scalar_one_or_none_def)

lemma fire_correlated_many:
  "get_job i s = Some job \<Longrightarrow> job_status job \<noteq> CANCELLED \<Longrightarrow> job_status job \<noteq> SENT \<Longrightarrow>
   filter (\<lambda>c. corr_job_id c = i) (message_correlations s) = c # c' # cs \<Longrightarrow>
   fire_send_scheduled_message settings provider now retries i s =
     (Inl MultipleResultsFound, mark_job_failed i (str_exn MultipleResultsFound) s)"
  by (frule get_job_id)
    (simp add: fire_send_scheduled_message_def send_scheduled_message_def session_scope_def
      scalar_one_or_none_def on_failure_result rollback_def)

lemma fire_send_raises:
  assumes "get_job i s = Some job" "job_status job \<noteq> CANCELLED" "job_status job \<noteq> SENT"
    and "filter (\<lambda>c. corr_job_id c = i) (message_correlations s) = []"
    and "provider (job_message job) = Inl e"
  shows "\<exists>e'. fire_send_scheduled_message settings provider now retries i s =
     (Inl e', (if (\<exists>n. e' = Retry n) then (\<lambda>x. x) else mark_job_failed i (str_exn e'))
                (s\<lparr>wa_calls := wa_calls s @ [(job_message job, Inl e)]\<rparr>))"
  using assms
  apply (frule_tac get_job_id)
  apply (cases e)
  apply (simp_all add: fire_send_scheduled_message_def send_scheduled_message_def session_scope_def
      scalar_one_or_none_def on_failure_result rollback_def send_text_message_def job_message_def
      Let_def)
  done


lemma jobs_mark_job_sent_cong: "jobs t = jobs s \<Longrightarrow> jobs (mark_job_sent i t) = jobs (mark_job_sent i s)"
  by (simp add: mark_job_sent_def)

lemma jobs_mark_job_failed_cong:
  "jobs t = jobs s \<Longrightarrow> jobs (mark_job_failed i e t) = jobs (mark_job_failed i e s)"
  by (simp add: mark_job_failed_def)

lemma wa_calls_mark_job_sent: "wa_calls (mark_job_sent i s) = wa_calls s"
  by (simp add: mark_job_sent_def)

lemma wa_calls_mark_job_failed: "wa_calls (mark_job_failed i e s) = wa_calls s"
  by (simp add: mark_job_failed_def)

lemma fire_send_no_id:
  assumes "get_job i s = Some job" "job_status job \<noteq> CANCELLED" "job_status job \<noteq> SENT"
    and "filter (\<lambda>c. corr_job_id c = i) (message_correlations s) = []"
    and "provider (job_message job) = Inr []"
  shows "fire_send_scheduled_message settings provider now retries i s =
     (Inl (RuntimeError ''No message id returned from WhatsApp''),
      mark_job_failed i ''No message id returned from WhatsApp''
        (s\<lparr>wa_calls := wa_calls s @ [(job_message job, Inr [])]\<rparr>))"
  using assms
  apply (frule_tac get_job_id)
  apply (simp add: fire_send_scheduled_message_def send_scheduled_message_def session_scope_def
      scalar_one_or_none_def on_failure_result send_text_message_def job_message_def
      Let_def str_exn_def)
  apply (simp add: rollback_def mark_job_failed_def)
  done

lemma fire_send_recorded:
  assumes "get_job i s = Some job" "job_status job \<noteq> CANCELLED" "job_status job \<noteq> SENT"
    and "filter (\<lambda>c. corr_job_id c = i) (message_correlations s) = []"
    and "provider (job_message job) = Inr (b # bs)"
  shows "\<exists>r t. fire_send_scheduled_message settings provider now retries i s = (r, t) \<and>
     wa_calls t = wa_calls s @ [(job_message job, Inr (b # bs))] \<and>
     ((r = Inr () \<and> jobs t = jobs (mark_job_sent i s)) \<or>
      (r \<noteq> Inr () \<and> (\<exists>e. jobs t = jobs (mark_job_failed i e s))))"
  using assms
  apply (frule_tac get_job_id)
  apply (simp add: fire_send_scheduled_message_def send_scheduled_message_def session_scope_def
      scalar_one_or_none_def on_failure_result send_text_message_def job_message_def
      Let_def and_then_def record_correlation_def split: option.splits)
  apply (auto simp: rollback_def mark_job_failed_def mark_job_sent_def)
  done

lemma fire_sends:
  assumes "get_job i s = Some job" "job_status job \<noteq> CANCELLED" "job_status job \<noteq> SENT"
    and "filter (\<lambda>c. corr_job_id c = i) (message_correlations s) = []"
  shows "\<exists>r t. fire_send_scheduled_message settings provider now retries i s = (r, t) \<and>
     wa_calls t = wa_calls s @ [(job_message job, provider (job_message job))] \<and>
     ((r = Inr () \<and> jobs t = jobs (mark_job_sent i s)) \<or>
      (r \<noteq> Inr () \<and> (jobs t = jobs s \<or> (\<exists>e. jobs t = jobs (mark_job_failed i e s)))))"
proof (cases "provider (job_message job)")
  case (Inl e)
  from fire_send_raises [where provider = provider and settings = settings and now = now and retries = retries, OF assms Inl] Inl show ?thesis
    by (auto simp: wa_calls_mark_job_failed mark_job_failed_def split: if_splits)
next
  case (Inr ids)
  show ?thesis
  proof (cases ids)
    case Nil
    with Inr have "provider (job_message job) = Inr []" by simp
    from fire_send_no_id [where provider = provider and settings = settings and now = now and retries = retries, OF assms this] Inr Nil show ?thesis
      by (auto simp: wa_calls_mark_job_failed mark_job_failed_def)
  next
    case (Cons b bs)
    with Inr have "provider (job_message job) = Inr (b # bs)" by simp
    from fire_send_recorded [where provider = provider and settings = settings and now = now and retries = retries, OF assms this] Inr Cons show ?thesis
      by auto
  qed
qed

lemma all_statuses: "st \<in> set [SCHEDULED, SENT, CANCELLED, FAILED]"
  by (cases st) simp_all

lemma fire_step:
  "list_all2 (row_step i [SCHEDULED, FAILED] [SENT, FAILED]) (jobs s)
     (jobs (snd (fire_send_scheduled_message settings provider now retries i s)))"
proof (cases "get_job i s")
  case None
  then show ?thesis by (simp add: fire_missing row_step_same)
next
  case (Some job)
  show ?thesis
  proof (cases "job_status job = CANCELLED \<or> job_status job = SENT")
    case True
    with Some show ?thesis by (simp add: fire_final row_step_same)
  next
    case False
    then have live: "job_status job \<noteq> CANCELLED" "job_status job \<noteq> SENT"
      and before: "job_status job \<in> set [SCHEDULED, FAILED]"
      by (cases "job_status job"; simp)+
    have sent: "list_all2 (row_step i [SCHEDULED, FAILED] [SENT, FAILED]) (jobs s)
        (jobs (mark_job_sent i s))"
      using Some before by (rule mark_job_sent_step) simp
    have failed: "list_all2 (row_step i [SCHEDULED, FAILED] [SENT, FAILED]) (jobs s)
        (jobs (mark_job_failed i e s))" for e
      using Some before by (rule mark_job_failed_step) simp
    show ?thesis
    proof (cases "filter (\<lambda>c. corr_job_id c = i) (message_correlations s)")
      case Nil
      from fire_sends [OF Some live Nil, where provider = provider and settings = settings
          and now = now and retries = retries]
      show ?thesis using sent failed by (auto simp: row_step_same)
    next
      case (Cons c cs)
      show ?thesis
      proof (cases cs)
        case Nil
        with Cons Some live sent show ?thesis by (simp add: fire_correlated)
      next
        case (Cons c' cs')
        with \<open>filter (\<lambda>c. corr_job_id c = i) (message_correlations s) = c # cs\<close> Some live failed
        show ?thesis by (simp add: fire_correlated_many)
      qed
    qed
  qed
qed

lemma get_job_cong: "jobs t = jobs s \<Longrightarrow> get_job i t = get_job i s"
  by (simp add: get_job_def)

lemma fire_ok_final:
  assumes "fire_send_scheduled_message settings provider now retries i s = (Inr (), t)"
    and "get_job i s = Some job"
  shows "\<exists>job'. get_job i t = Some job' \<and> (job_status job' = CANCELLED \<or> job_status job' = SENT)"
proof (cases "job_status job = CANCELLED \<or> job_status job = SENT")
  case True
  with assms show ?thesis by (auto simp: fire_final)
next
  case False
  then have live: "job_status job \<noteq> CANCELLED" "job_status job \<noteq> SENT" by simp_all
  have "jobs t = jobs (mark_job_sent i s)"
  proof (cases "filter (\<lambda>c. corr_job_id c = i) (message_correlations s)")
    case Nil
    from fire_sends [OF assms(2) live Nil, where provider = provider and settings = settings
        and now = now and retries = retries] assms(1)
    show ?thesis by auto
  next
    case (Cons c cs)
    show ?thesis
    proof (cases cs)
      case Nil
      with Cons assms live show ?thesis by (simp add: fire_correlated)
    next
      case (Cons c' cs')
      with \<open>filter (\<lambda>c. corr_job_id c = i) (message_correlations s) = c # cs\<close> assms live
      show ?thesis by (simp add: fire_correlated_many)
    qed
  qed
  then have "get_job i t = get_job i (mark_job_sent i s)" by (rule get_job_cong)
  with assms(2) show ?thesis by (simp add: get_job_mark_job_sent)
qed

lemma fire_again:
  assumes "fire_send_scheduled_message settings provider now retries i s = (Inr (), t)"
  shows "fire_send_scheduled_message settings' provider' now' retries' i t = (Inr (), t)"
proof (cases "get_job i s")
  case None
  with assms have "t = s" by (simp add: fire_missing)
  with None show ?thesis by (simp add: fire_missing)
next
  case (Some job)
  from fire_ok_final [OF assms Some] show ?thesis by (auto simp: fire_final)
qed

lemma fire_no_resend:
  assumes "get_job i s = Some job" "job_status job \<noteq> CANCELLED" "job_status job \<noteq> SENT"
    and "filter (\<lambda>c. corr_job_id c = i) (message_correlations s) \<noteq> []"
  shows "wa_calls (snd (fire_send_scheduled_message settings provider now retries i s)) =
     wa_calls s"
proof (cases "filter (\<lambda>c. corr_job_id c = i) (message_correlations s)")
  case Nil
  with assms(4) show ?thesis by simp
next
  case (Cons c cs)
  show ?thesis
  proof (cases cs)
    case Nil
    with Cons assms show ?thesis by (simp add: fire_correlated wa_calls_mark_job_sent)
  next
    case (Cons c' cs')
    with \<open>filter (\<lambda>c. corr_job_id c = i) (message_correlations s) = c # cs\<close> assms
    show ?thesis by (simp add: fire_correlated_many wa_calls_mark_job_failed)
  qed
qed

lemma get_job_mark_job_failed:
  "get_job i s = Some job \<Longrightarrow>
   get_job i (mark_job_failed i e s) =
     Some (job\<lparr>job_status := FAILED, job_last_error := Some e\<rparr>)"
  unfolding get_job_def mark_job_failed_def
  by (frule find_update_first
        [where f = "\<lambda>j. j\<lparr>job_status := FAILED, job_last_error := Some e\<rparr>"])
    (auto simp: find_Some_iff)

lemma cancel_job_final:
  "get_job i s = Some job \<Longrightarrow> job_status job = CANCELLED \<or> job_status job = SENT \<Longrightarrow>
   cancel_job i s = (Inr True, s)"
  by (auto simp: cancel_job_def)

lemma cancel_job_live:
  assumes "get_job i s = Some job" "job_status job \<noteq> CANCELLED" "job_status job \<noteq> SENT"
  shows "fst (cancel_job i s) = Inr True \<and>
     get_job i (snd (cancel_job i s)) =
       Some (job\<lparr>job_status := CANCELLED, job_last_error := None\<rparr>)"
proof -
  from assms(1) have "find (\<lambda>j. job_id j = i)
      (update_first (\<lambda>j. job_id j = i)
         (\<lambda>j. j\<lparr>job_status := CANCELLED, job_last_error := None\<rparr>) (jobs s)) =
      Some (job\<lparr>job_status := CANCELLED, job_last_error := None\<rparr>)"
    unfolding get_job_def
    by (frule_tac find_update_first
          [where f = "\<lambda>j. j\<lparr>job_status := CANCELLED, job_last_error := None\<rparr>"])
      (auto simp: find_Some_iff)
  with assms show ?thesis
    by (simp add: cancel_job_def get_job_def Let_def split: option.splits)
qed

lemma send_scheduled_message_raises_rows:
  "send_scheduled_message settings provider now retries i s = (Inl e, t) \<Longrightarrow> jobs t = jobs s"
  by (auto simp: send_scheduled_message_def session_scope_def rollback_def
      split: prod.splits sum.splits)

lemma fire_raises_rows:
  assumes "fire_send_scheduled_message settings provider now retries i s = (Inl e, t)"
  shows "jobs t = (case e of Retry n \<Rightarrow> jobs s | _ \<Rightarrow> jobs (mark_job_failed i (str_exn e) s))"
proof -
  obtain r0 s0 where body: "send_scheduled_message settings provider now retries i s = (r0, s0)"
    by (meson surj_pair)
  show ?thesis
  proof (cases r0)
    case (Inr u)
    with body assms show ?thesis by (simp add: fire_send_scheduled_message_def)
  next
    case (Inl e0)
    with body have rows: "jobs s0 = jobs s" by (simp add: send_scheduled_message_raises_rows)
    from Inl body assms have "e0 = e"
      by (cases e0) (simp_all add: fire_send_scheduled_message_def)
    with Inl body assms rows show ?thesis
      by (cases e)
        (auto simp add: fire_send_scheduled_message_def on_failure_result
          jobs_mark_job_failed_cong [OF rows])
  qed
qed

lemma fire_ok_rows:
  assumes "fire_send_scheduled_message settings provider now retries i s = (Inr u, t)"
    and "get_job i s = Some job" "job_status job \<noteq> CANCELLED" "job_status job \<noteq> SENT"
  shows "jobs t = jobs (mark_job_sent i s)"
proof (cases "filter (\<lambda>c. corr_job_id c = i) (message_correlations s)")
  case Nil
  from fire_sends [OF assms(2-4) Nil, where provider = provider and settings = settings
      and now = now and retries = retries] assms(1)
  show ?thesis by auto
next
  case (Cons c cs)
  show ?thesis
  proof (cases cs)
    case Nil
    with Cons assms show ?thesis by (simp add: fire_correlated)
  next
    case (Cons c' cs')
    with \<open>filter (\<lambda>c. corr_job_id c = i) (message_correlations s) = c # cs\<close> assms
    show ?thesis by (simp add: fire_correlated_many)
  qed
qed

lemma fire_outcome:
  assumes "get_job i s = Some job" "job_status job \<noteq> CANCELLED" "job_status job \<noteq> SENT"
  shows "case fire_send_scheduled_message settings provider now retries i s of
           (Inr u, t) \<Rightarrow>
             get_job i t = Some (job\<lparr>job_status := SENT, job_last_error := None\<rparr>)
         | (Inl err, t) \<Rightarrow>
             (case err of
                Retry n \<Rightarrow> jobs t = jobs s
              | _ \<Rightarrow> get_job i t =
                       Some (job\<lparr>job_status := FAILED, job_last_error := Some (str_exn err)\<rparr>))"
proof -
  obtain r t where fire: "fire_send_scheduled_message settings provider now retries i s = (r, t)"
    by (meson surj_pair)
  show ?thesis
  proof (cases r)
    case (Inr u)
    with fire assms have "jobs t = jobs (mark_job_sent i s)" by (simp add: fire_ok_rows)
    then have "get_job i t = get_job i (mark_job_sent i s)" by (rule get_job_cong)
    with assms(1) fire Inr show ?thesis by (simp add: get_job_mark_job_sent)
  next
    case (Inl err)
    with fire have rows:
      "jobs t = (case err of Retry n \<Rightarrow> jobs s
                 | _ \<Rightarrow> jobs (mark_job_failed i (str_exn err) s))"
      by (simp add: fire_raises_rows)
    show ?thesis
    proof (cases "\<exists>n. err = Retry n")
      case True
      with rows fire Inl show ?thesis by auto
    next
      case False
      with rows have "jobs t = jobs (mark_job_failed i (str_exn err) s)"
        by (cases err) simp_all
      then have "get_job i t = get_job i (mark_job_failed i (str_exn err) s)"
        by (rule get_job_cong)
      with assms(1) have "get_job i t =
          Some (job\<lparr>job_status := FAILED, job_last_error := Some (str_exn err)\<rparr>)"
        by (simp add: get_job_mark_job_failed)
      with False fire Inl show ?thesis by (cases err) simp_all
    qed
  qed
qed

text \<open>
  Claim C4, amended.  \<^verbatim>\<open>cancel_job\<close> changes only a Job that is Scheduled or Failed, and
  moves it to Cancelled with \<^verbatim>\<open>last_error\<close> cleared; a delivery of the fire event changes
  only a Job that is Scheduled or Failed, and leaves it Sent (\<^verbatim>\<open>last_error\<close> cleared) when it
  returns, Failed (\<^verbatim>\<open>last_error\<close> the text of the exception) when it raises, and as it was
  when it asks for a retry.  On a Job that is Sent or Cancelled both return and change
  nothing at all, and Failed is not final.  \<^verbatim>\<open>mark_job_sent\<close> and \<^verbatim>\<open>mark_job_failed\<close> set
  Sent (\<^verbatim>\<open>last_error\<close> cleared) and Failed (\<^verbatim>\<open>last_error\<close> the given text) on the Job
  whatever its status.  Every change is to \<^verbatim>\<open>status\<close> and \<^verbatim>\<open>last_error\<close> of the one Job,
  and after a change \<^verbatim>\<open>last_error\<close> is set exactly when the status is Failed.
\<close>

theorem job_status_transitions:
  "list_all2 (row_step i [SCHEDULED, FAILED] [CANCELLED]) (jobs s)
     (jobs (snd (cancel_job i s))) \<and>
   list_all2 (row_step i [SCHEDULED, FAILED] [SENT, FAILED]) (jobs s)
     (jobs (snd (fire_send_scheduled_message settings provider now retries i s))) \<and>
   list_all2 (row_step i [SCHEDULED, SENT, CANCELLED, FAILED] [SENT]) (jobs s)
     (jobs (mark_job_sent i s)) \<and>
   list_all2 (row_step i [SCHEDULED, SENT, CANCELLED, FAILED] [FAILED]) (jobs s)
     (jobs (mark_job_failed i e s)) \<and>
   (get_job i s = Some job \<longrightarrow>
      get_job i (mark_job_sent i s) =
        Some (job\<lparr>job_status := SENT, job_last_error := None\<rparr>) \<and>
      get_job i (mark_job_failed i e s) =
        Some (job\<lparr>job_status := FAILED, job_last_error := Some e\<rparr>) \<and>
      (if job_status job = CANCELLED \<or> job_status job = SENT
       then cancel_job i s = (Inr True, s) \<and>
            fire_send_scheduled_message settings provider now retries i s = (Inr (), s)
       else fst (cancel_job i s) = Inr True \<and>
            get_job i (snd (cancel_job i s)) =
              Some (job\<lparr>job_status := CANCELLED, job_last_error := None\<rparr>) \<and>
            (case fire_send_scheduled_message settings provider now retries i s of
               (Inr u, t) \<Rightarrow>
                 get_job i t = Some (job\<lparr>job_status := SENT, job_last_error := None\<rparr>)
             | (Inl err, t) \<Rightarrow>
                 (case err of
                    Retry n \<Rightarrow> jobs t = jobs s
                  | _ \<Rightarrow> get_job i t =
                      Some (job\<lparr>job_status := FAILED,
                              job_last_error := Some (str_exn err)\<rparr>)))))"
proof (intro conjI impI)
  show "list_all2 (row_step i [SCHEDULED, FAILED] [CANCELLED]) (jobs s)
     (jobs (snd (cancel_job i s)))"
    by (rule cancel_job_step)
  show "list_all2 (row_step i [SCHEDULED, FAILED] [SENT, FAILED]) (jobs s)
     (jobs (snd (fire_send_scheduled_message settings provider now retries i s)))"
    by (rule fire_step)
  show "list_all2 (row_step i [SCHEDULED, SENT, CANCELLED, FAILED] [SENT]) (jobs s)
     (jobs (mark_job_sent i s))"
  proof (cases "get_job i s")
    case None
    then show ?thesis by (simp add: jobs_mark_job_sent_missing row_step_same)
  next
    case (Some job)
    then show ?thesis by (rule mark_job_sent_step) (rule all_statuses, simp)
  qed
  show "list_all2 (row_step i [SCHEDULED, SENT, CANCELLED, FAILED] [FAILED]) (jobs s)
     (jobs (mark_job_failed i e s))"
  proof (cases "get_job i s")
    case None
    then show ?thesis by (simp add: jobs_mark_job_failed_missing row_step_same)
  next
    case (Some job)
    then show ?thesis by (rule mark_job_failed_step) (rule all_statuses, simp)
  qed
next
  assume found: "get_job i s = Some job"
  then show "get_job i (mark_job_sent i s) =
      Some (job\<lparr>job_status := SENT, job_last_error := None\<rparr>)"
    by (rule get_job_mark_job_sent)
  from found show "get_job i (mark_job_failed i e s) =
      Some (job\<lparr>job_status := FAILED, job_last_error := Some e\<rparr>)"
    by (rule get_job_mark_job_failed)
  show "if job_status job = CANCELLED \<or> job_status job = SENT
       then cancel_job i s = (Inr True, s) \<and>
            fire_send_scheduled_message settings provider now retries i s = (Inr (), s)
       else fst (cancel_job i s) = Inr True \<and>
            get_job i (snd (cancel_job i s)) =
              Some (job\<lparr>job_status := CANCELLED, job_last_error := None\<rparr>) \<and>
            (case fire_send_scheduled_message settings provider now retries i s of
               (Inr u, t) \<Rightarrow>
                 get_job i t = Some (job\<lparr>job_status := SENT, job_last_error := None\<rparr>)
             | (Inl err, t) \<Rightarrow>
                 (case err of
                    Retry n \<Rightarrow> jobs t = jobs s
                  | _ \<Rightarrow> get_job i t =
                      Some (job\<lparr>job_status := FAILED,
                              job_last_error := Some (str_exn err)\<rparr>)))"
  proof (cases "job_status job = CANCELLED \<or> job_status job = SENT")
    case True
    with found show ?thesis by (simp add: cancel_job_final fire_final)
  next
    case False
    then have live: "job_status job \<noteq> CANCELLED" "job_status job \<noteq> SENT" by simp_all
    from cancel_job_live [OF found live]
      fire_outcome [OF found live, where settings = settings and provider = provider
        and now = now and retries = retries]
      False
    show ?thesis by simp
  qed
qed

theorem job_status_transitions_witness:
  "get_job 1 demo_failed =
     Some (demo_job\<lparr>job_status := FAILED, job_last_error := Some ''boom''\<rparr>) \<and>
   get_job 1 (snd (cancel_job 1 demo_failed)) =
     Some (demo_job\<lparr>job_status := CANCELLED, job_last_error := None\<rparr>) \<and>
   get_job 1 (snd (fire_send_scheduled_message demo_settings demo_provider 60 0 1 demo_failed)) =
     Some (demo_job\<lparr>job_status := SENT, job_last_error := None\<rparr>) \<and>
   get_job 1 (snd (fire_send_scheduled_message demo_settings demo_provider_no_id 60 0 1
       demo_scheduled)) =
     Some (demo_job\<lparr>job_status := FAILED,
             job_last_error := Some ''No message id returned from WhatsApp''\<rparr>) \<and>
   get_job 1 demo_cancelled = Some (demo_job\<lparr>job_status := CANCELLED\<rparr>) \<and>
   cancel_job 1 demo_cancelled = (Inr True, demo_cancelled) \<and>
   fire_send_scheduled_message demo_settings demo_provider 60 0 1 demo_cancelled =
     (Inr (), demo_cancelled) \<and>
   get_job 1 (mark_job_sent 1 demo_cancelled) = Some (demo_job\<lparr>job_status := SENT\<rparr>) \<and>
   get_job 1 (mark_job_failed 1 ''late'' demo_cancelled) =
     Some (demo_job\<lparr>job_status := FAILED, job_last_error := Some ''late''\<rparr>)"
proof -
  note transitions = job_status_transitions
    [where settings = demo_settings and now = 60 and retries = 0 and i = 1 and e = "''late''"]
  have failed: "get_job 1 demo_failed =
      Some (demo_job\<lparr>job_status := FAILED, job_last_error := Some ''boom''\<rparr>)"
    by (simp add: get_job_def eval_simps)
  have scheduled: "get_job 1 demo_scheduled = Some demo_job"
    by (simp add: get_job_def eval_simps)
  have cancelled: "get_job 1 demo_cancelled = Some (demo_job\<lparr>job_status := CANCELLED\<rparr>)"
    by (simp add: get_job_def eval_simps)
  have sent: "fst (fire_send_scheduled_message demo_settings demo_provider 60 0 1 demo_failed) =
      Inr ()"
    by (simp add: fire_send_scheduled_message_def send_scheduled_message_def session_scope_def
        get_job_def send_text_message_def endswith_def and_then_def record_correlation_def
        eval_simps)
  have raised:
    "fst (fire_send_scheduled_message demo_settings demo_provider_no_id 60 0 1 demo_scheduled) =
      Inl (RuntimeError ''No message id returned from WhatsApp'')"
    by (simp add: fire_send_scheduled_message_def send_scheduled_message_def session_scope_def
        get_job_def send_text_message_def endswith_def on_failure_def rollback_def eval_simps)
  from transitions [where provider = demo_provider and s = demo_failed
      and job = "demo_job\<lparr>job_status := FAILED, job_last_error := Some ''boom''\<rparr>"]
    failed sent
  have first: "get_job 1 (snd (cancel_job 1 demo_failed)) =
       Some (demo_job\<lparr>job_status := CANCELLED, job_last_error := None\<rparr>) \<and>
     get_job 1 (snd (fire_send_scheduled_message demo_settings demo_provider 60 0 1
         demo_failed)) =
       Some (demo_job\<lparr>job_status := SENT, job_last_error := None\<rparr>)"
    by (auto simp add: eval_simps split: prod.splits sum.splits)
  from transitions [where provider = demo_provider_no_id and s = demo_scheduled
      and job = demo_job] scheduled raised
  have second: "get_job 1 (snd (fire_send_scheduled_message demo_settings demo_provider_no_id
         60 0 1 demo_scheduled)) =
       Some (demo_job\<lparr>job_status := FAILED,
               job_last_error := Some ''No message id returned from WhatsApp''\<rparr>)"
    by (auto simp add: str_exn_def eval_simps split: prod.splits sum.splits)
  from transitions [where provider = demo_provider and s = demo_cancelled
      and job = "demo_job\<lparr>job_status := CANCELLED\<rparr>"] cancelled
  have third: "cancel_job 1 demo_cancelled = (Inr True, demo_cancelled) \<and>
     fire_send_scheduled_message demo_settings demo_provider 60 0 1 demo_cancelled =
       (Inr (), demo_cancelled) \<and>
     get_job 1 (mark_job_sent 1 demo_cancelled) = Some (demo_job\<lparr>job_status := SENT\<rparr>) \<and>
     get_job 1 (mark_job_failed 1 ''late'' demo_cancelled) =
       Some (demo_job\<lparr>job_status := FAILED, job_last_error := Some ''late''\<rparr>)"
    by (simp add: eval_simps)
  from failed cancelled first second third show ?thesis by simp
qed

text \<open>
  The claim as stated fails: \<^verbatim>\<open>cancel_job\<close> moves a Failed Job to Cancelled and clears its
  \<^verbatim>\<open>last_error\<close>.
\<close>

theorem cancel_job_failed_job:
  "jobs demo_failed = [demo_job\<lparr>job_status := FAILED, job_last_error := Some ''boom''\<rparr>] \<and>
   cancel_job 1 demo_failed =
     (Inr True,
      demo_failed\<lparr>jobs := [demo_job\<lparr>job_status := CANCELLED, job_last_error := None\<rparr>],
        celery_calls := [SendTask 1 50 ''task-0'', Revoke ''task-0'']\<rparr>)"
  by (simp add: cancel_job_def get_job_def eval_simps)

text \<open>
  Claim C6, amended.  A delivery of the fire event for a Job that is Cancelled or Sent sends
  nothing and changes nothing.  For a Job in another state for which a correlation row
  exists, the delivery sends nothing; when that row is the only one for the Job, all the
  delivery does is \<^verbatim>\<open>mark_job_sent\<close> (status Sent, \<^verbatim>\<open>last_error\<close> cleared).  So once a
  delivery has returned without raising, any later delivery for the same Job sends nothing
  and changes nothing.
\<close>

theorem fire_event_redelivery:
  "(get_job i s = Some job \<and> (job_status job = CANCELLED \<or> job_status job = SENT) \<longrightarrow>
      fire_send_scheduled_message settings provider now retries i s = (Inr (), s)) \<and>
   (get_job i s = Some job \<and> job_status job \<noteq> CANCELLED \<and> job_status job \<noteq> SENT \<and>
    filter (\<lambda>c. corr_job_id c = i) (message_correlations s) \<noteq> [] \<longrightarrow>
      wa_calls (snd (fire_send_scheduled_message settings provider now retries i s)) =
        wa_calls s) \<and>
   (get_job i s = Some job \<and> job_status job \<noteq> CANCELLED \<and> job_status job \<noteq> SENT \<and>
    filter (\<lambda>c. corr_job_id c = i) (message_correlations s) = [c] \<longrightarrow>
      fire_send_scheduled_message settings provider now retries i s =
        (Inr (), mark_job_sent i s)) \<and>
   (fire_send_scheduled_message settings provider now retries i s = (Inr (), t) \<longrightarrow>
      fire_send_scheduled_message settings2 provider2 now2 retries2 i t = (Inr (), t))"
  by (auto simp: fire_final fire_no_resend fire_correlated fire_again)

theorem fire_event_redelivery_witness:
  "fire_send_scheduled_message demo_settings demo_provider 60 0 1 demo_cancelled =
     (Inr (), demo_cancelled) \<and>
   fire_send_scheduled_message demo_settings demo_provider 60 0 1 demo_correlated =
     (Inr (), demo_correlated\<lparr>jobs := [demo_job\<lparr>job_status := SENT\<rparr>]\<rparr>) \<and>
   wa_calls (demo_correlated\<lparr>jobs := [demo_job\<lparr>job_status := SENT\<rparr>]\<rparr>) = [] \<and>
   fire_send_scheduled_message demo_settings demo_provider_no_id 70 3 1
       (demo_correlated\<lparr>jobs := [demo_job\<lparr>job_status := SENT\<rparr>]\<rparr>) =
     (Inr (), demo_correlated\<lparr>jobs := [demo_job\<lparr>job_status := SENT\<rparr>]\<rparr>)"
proof -
  note redelivery = fire_event_redelivery
    [where settings = demo_settings and provider = demo_provider and now = 60 and retries = 0
      and i = 1]
  have cancelled: "get_job 1 demo_cancelled = Some (demo_job\<lparr>job_status := CANCELLED\<rparr>)"
    by (simp add: get_job_def eval_simps)
  have correlated: "get_job 1 demo_correlated = Some demo_job"
    "job_status demo_job = SCHEDULED"
    "filter (\<lambda>c. corr_job_id c = 1) (message_correlations demo_correlated) = [demo_correlation]"
    by (simp_all add: get_job_def eval_simps)
  have marked: "mark_job_sent 1 demo_correlated =
      demo_correlated\<lparr>jobs := [demo_job\<lparr>job_status := SENT\<rparr>]\<rparr>"
    by (simp add: mark_job_sent_def eval_simps)
  from redelivery [where s = demo_cancelled and job = "demo_job\<lparr>job_status := CANCELLED\<rparr>"]
    cancelled
  have first: "fire_send_scheduled_message demo_settings demo_provider 60 0 1 demo_cancelled =
     (Inr (), demo_cancelled)"
    by simp
  from redelivery [where s = demo_correlated and job = demo_job and c = demo_correlation]
    correlated marked
  have second: "fire_send_scheduled_message demo_settings demo_provider 60 0 1 demo_correlated =
     (Inr (), demo_correlated\<lparr>jobs := [demo_job\<lparr>job_status := SENT\<rparr>]\<rparr>)"
    by simp
  from redelivery [where s = demo_correlated
      and t = "demo_correlated\<lparr>jobs := [demo_job\<lparr>job_status := SENT\<rparr>]\<rparr>"
      and ?settings2.0 = demo_settings and ?provider2.0 = demo_provider_no_id and ?now2.0 = 70
      and ?retries2.0 = 3] second
  have third: "fire_send_scheduled_message demo_settings demo_provider_no_id 70 3 1
       (demo_correlated\<lparr>jobs := [demo_job\<lparr>job_status := SENT\<rparr>]\<rparr>) =
     (Inr (), demo_correlated\<lparr>jobs := [demo_job\<lparr>job_status := SENT\<rparr>]\<rparr>)"
    by simp
  from first second third show ?thesis by (simp add: eval_simps)
qed

text \<open>
  The claim as stated fails: a message can be sent twice.  The provider accepts the request
  of the first delivery and returns no message id; the task raises, its transaction is rolled
  back and \<^verbatim>\<open>on_failure\<close> marks the Job Failed.  A second delivery of the fire event finds a
  Job that is neither Cancelled nor Sent and has no correlation row, and sends again.
\<close>

theorem fire_event_twice_after_missing_id:
  "fire_send_scheduled_message demo_settings demo_provider_no_id 60 0 1 demo_scheduled =
     (Inl (RuntimeError ''No message id returned from WhatsApp''),
      demo_scheduled\<lparr>
        jobs := [demo_job\<lparr>job_status := FAILED,
                   job_last_error := Some ''No message id returned from WhatsApp''\<rparr>],
        wa_calls := [(TextMessage ''12345@g.us'' ''Hello'' ''group'', Inr [])]\<rparr>) \<and>
   wa_calls (snd (fire_send_scheduled_message demo_settings demo_provider 70 0 1
       (demo_scheduled\<lparr>
          jobs := [demo_job\<lparr>job_status := FAILED,
                     job_last_error := Some ''No message id returned from WhatsApp''\<rparr>],
          wa_calls := [(TextMessage ''12345@g.us'' ''Hello'' ''group'', Inr [])]\<rparr>))) =
     [(TextMessage ''12345@g.us'' ''Hello'' ''group'', Inr []),
      (TextMessage ''12345@g.us'' ''Hello'' ''group'', Inr [Some ''wamid.1''])]"
  by (simp add: fire_send_scheduled_message_def send_scheduled_message_def session_scope_def
      get_job_def send_text_message_def endswith_def on_failure_def mark_job_failed_def
      mark_job_sent_def rollback_def str_exn_def and_then_def record_correlation_def eval_simps)

lemma schedule_job_snapshot:
  assumes "filter (\<lambda>g. grp_alias g = lower group_alias) (groups s) = [grp]"
    and "schedule_job lib now task_id group_alias text run_at created_by None s = (Inr job, s')"
    and "jobs s' \<noteq> jobs s"
  shows "job_group_id job = grp_group_id grp \<and> jobs s' = jobs s @ [job]"
  using assms
  by (auto simp: schedule_job_def schedule_job_under_def Let_def truthy_def scalar_one_or_none_def
      split: sum.splits option.splits if_splits list.splits)

text \<open>
  Claim C10.  A Job that \<^verbatim>\<open>schedule_job\<close> creates carries the destination that its alias
  resolves to at that time.  Registering an alias again, or unregistering it, leaves the
  table of Jobs as it was; and the request that a delivery makes for a Job (one that is
  neither Cancelled nor Sent and has no correlation row) is \<open>job_message\<close> of the stored row,
  addressed to the row's own \<^verbatim>\<open>group_id\<close>, also after such a change of the registry.
\<close>

theorem job_destination_snapshot:
  "(filter (\<lambda>g. grp_alias g = lower scheduled_alias) (groups s0) = [grp] \<and>
    schedule_job lib now0 task_id scheduled_alias body run_at created_by None s0 =
      (Inr job0, s) \<and> jobs s \<noteq> jobs s0 \<longrightarrow>
      job_group_id job0 = grp_group_id grp \<and> jobs s = jobs s0 @ [job0]) \<and>
   jobs (snd (register_group now group_alias new_group_id new_name s)) = jobs s \<and>
   jobs (snd (unregister_group group_alias s)) = jobs s \<and>
   (get_job i s = Some job \<and> job_status job \<noteq> CANCELLED \<and> job_status job \<noteq> SENT \<and>
    filter (\<lambda>c. corr_job_id c = i) (message_correlations s) = [] \<longrightarrow>
      wa_calls (snd (fire_send_scheduled_message settings provider later retries i
          (snd (register_group now group_alias new_group_id new_name s)))) =
        wa_calls s @ [(job_message job, provider (job_message job))] \<and>
      wa_calls (snd (fire_send_scheduled_message settings provider later retries i
          (snd (unregister_group group_alias s)))) =
        wa_calls s @ [(job_message job, provider (job_message job))])"
proof (intro conjI impI)
  assume "filter (\<lambda>g. grp_alias g = lower scheduled_alias) (groups s0) = [grp] \<and>
    schedule_job lib now0 task_id scheduled_alias body run_at created_by None s0 =
      (Inr job0, s) \<and> jobs s \<noteq> jobs s0"
  then have registered: "filter (\<lambda>g. grp_alias g = lower scheduled_alias) (groups s0) = [grp]"
    and call: "schedule_job lib now0 task_id scheduled_alias body run_at created_by None s0 =
      (Inr job0, s)"
    and new: "jobs s \<noteq> jobs s0"
    by simp_all
  from registered call new
  have "job_group_id job0 = grp_group_id grp \<and> jobs s = jobs s0 @ [job0]"
    by (rule schedule_job_snapshot)
  then show "job_group_id job0 = grp_group_id grp" and "jobs s = jobs s0 @ [job0]"
    by simp_all
next
  let ?r = "snd (register_group now group_alias new_group_id new_name s)"
  let ?u = "snd (unregister_group group_alias s)"
  show reg: "jobs ?r = jobs s"
    by (simp add: register_group_def Let_def split: sum.splits option.splits)
  show unreg: "jobs ?u = jobs s"
    by (simp add: unregister_group_def Let_def split: sum.splits option.splits)
  have other_r: "message_correlations ?r = message_correlations s" "wa_calls ?r = wa_calls s"
    by (simp_all add: register_group_def Let_def split: sum.splits option.splits)
  have other_u: "message_correlations ?u = message_correlations s" "wa_calls ?u = wa_calls s"
    by (simp_all add: unregister_group_def Let_def split: sum.splits option.splits)
  assume live: "get_job i s = Some job \<and> job_status job \<noteq> CANCELLED \<and> job_status job \<noteq> SENT \<and>
    filter (\<lambda>c. corr_job_id c = i) (message_correlations s) = []"
  from reg live have "get_job i ?r = Some job" by (simp add: get_job_def)
  from fire_sends [OF this, where provider = provider and settings = settings
      and now = later and retries = retries] live other_r
  show "wa_calls (snd (fire_send_scheduled_message settings provider later retries i ?r)) =
        wa_calls s @ [(job_message job, provider (job_message job))]"
    by auto
  from unreg live have "get_job i ?u = Some job" by (simp add: get_job_def)
  from fire_sends [OF this, where provider = provider and settings = settings
      and now = later and retries = retries] live other_u
  show "wa_calls (snd (fire_send_scheduled_message settings provider later retries i ?u)) =
        wa_calls s @ [(job_message job, provider (job_message job))]"
    by auto
qed

theorem job_destination_snapshot_witness:
  "schedule_job demo_lib 0 ''task-0'' ''team'' ''Hello'' 50 ''owner-wa-id'' None demo_registry =
     (Inr demo_job, demo_scheduled) \<and>
   job_group_id demo_job = grp_group_id demo_group \<and>
   groups (snd (register_group 55 ''team'' ''99999@g.us'' None demo_scheduled)) =
     [demo_group\<lparr>grp_group_id := ''99999@g.us'', grp_group_name := None\<rparr>] \<and>
   groups (snd (unregister_group ''team'' demo_scheduled)) = [] \<and>
   jobs (snd (register_group 55 ''team'' ''99999@g.us'' None demo_scheduled)) = [demo_job] \<and>
   jobs (snd (unregister_group ''team'' demo_scheduled)) = [demo_job] \<and>
   wa_calls (snd (fire_send_scheduled_message demo_settings demo_provider 60 0 1
       (snd (register_group 55 ''team'' ''99999@g.us'' None demo_scheduled)))) =
     [(TextMessage ''12345@g.us'' ''Hello'' ''group'', Inr [Some ''wamid.1''])] \<and>
   wa_calls (snd (fire_send_scheduled_message demo_settings demo_provider 60 0 1
       (snd (unregister_group ''team'' demo_scheduled)))) =
     [(TextMessage ''12345@g.us'' ''Hello'' ''group'', Inr [Some ''wamid.1''])]"
proof -
  have scheduled:
    "filter (\<lambda>g. grp_alias g = lower ''team'') (groups demo_registry) = [demo_group]"
    "schedule_job demo_lib 0 ''task-0'' ''team'' ''Hello'' 50 ''owner-wa-id'' None demo_registry =
       (Inr demo_job, demo_scheduled)"
    "jobs demo_scheduled \<noteq> jobs demo_registry"
    by (simp_all add: schedule_job_def schedule_job_under_def eval_simps)
  have live: "get_job 1 demo_scheduled = Some demo_job" "job_status demo_job = SCHEDULED"
    "filter (\<lambda>c. corr_job_id c = 1) (message_correlations demo_scheduled) = []"
    "jobs demo_scheduled = [demo_job]" "wa_calls demo_scheduled = []"
    by (simp_all add: get_job_def eval_simps)
  have request: "job_message demo_job = TextMessage ''12345@g.us'' ''Hello'' ''group''"
    by (simp add: job_message_def endswith_def eval_simps)
  have registry:
    "groups (snd (register_group 55 ''team'' ''99999@g.us'' None demo_scheduled)) =
       [demo_group\<lparr>grp_group_id := ''99999@g.us'', grp_group_name := None\<rparr>]"
    "groups (snd (unregister_group ''team'' demo_scheduled)) = []"
    by (simp_all add: register_group_def unregister_group_def eval_simps)
  from job_destination_snapshot [where s = demo_scheduled and i = 1 and job = demo_job
      and now = 55 and group_alias = "''team''" and new_group_id = "''99999@g.us''"
      and new_name = None and settings = demo_settings and provider = demo_provider
      and later = 60 and retries = 0 and ?s0.0 = demo_registry and grp = demo_group
      and lib = demo_lib and ?now0.0 = 0 and task_id = "''task-0''"
      and scheduled_alias = "''team''" and body = "''Hello''" and run_at = 50
      and created_by = "''owner-wa-id''" and ?job0.0 = demo_job]
    scheduled live request registry
  show ?thesis by (simp add: demo_provider_def)
qed

section \<open>Resolving a reply to a correlation\<close>

lemma filter_distinct_key:
  assumes "distinct (map f xs)" and "x \<in> set xs"
  shows "filter (\<lambda>y. f y = f x) xs = [x]"
  using assms
proof (induction xs)
  case Nil
  then show ?case by simp
next
  case (Cons a xs)
  show ?case
  proof (cases "x = a")
    case True
    from Cons.prems(1) have "f a \<notin> f ` set xs" by simp
    then have "filter (\<lambda>y. f y = f a) xs = []"
      by (force simp: filter_empty_conv image_iff)
    with True show ?thesis by simp
  next
    case False
    with Cons.prems have "x \<in> set xs" and "distinct (map f xs)" and "f a \<noteq> f x"
      by auto
    with Cons.IH show ?thesis by simp
  qed
qed

lemma filter_distinct_cases:
  assumes "distinct (map f xs)"
  shows "filter (\<lambda>y. f y = k) xs = [] \<or> (\<exists>x. x \<in> set xs \<and> f x = k \<and> filter (\<lambda>y. f y = k) xs = [x])"
proof (cases "filter (\<lambda>y. f y = k) xs")
  case Nil
  then show ?thesis by simp
next
  case (Cons x rest)
  then have "x \<in> set (filter (\<lambda>y. f y = k) xs)" by simp
  then have mem: "x \<in> set xs" and key: "f x = k" by simp_all
  from filter_distinct_key [OF assms mem] key show ?thesis using mem by auto
qed

lemma newest_first:
  assumes "sort_key (\<lambda>c. - f c) xs = y # ys"
  shows "y \<in> set xs \<and> list_all (\<lambda>x. (f x :: int) \<le> f y) xs"
proof -
  have "set (sort_key (\<lambda>c. - f c) xs) = set xs" by simp
  with assms have mem: "set xs = set (y # ys)" by simp
  have "sorted (map (\<lambda>c. - f c) (sort_key (\<lambda>c. - f c) xs))" by (rule sorted_sort_key)
  with assms have "\<forall>x \<in> set ys. - f y \<le> - f x" by simp
  with mem show ?thesis by (auto simp: list_all_iff)
qed

lemma fallback_result:
  assumes "candidates = filter (\<lambda>c. corr_group_id c = group_id \<and> corr_window_expires_at c > now)
             (message_correlations s)"
  shows "\<exists>r. (case sort_key (\<lambda>c. - corr_created_at c) candidates of
             [] \<Rightarrow> Inr None
           | correlation # _ \<Rightarrow>
               if window_in_future (corr_window_expires_at correlation) now
               then Inr (Some correlation) else Inr None) = (Inr r :: exn + message_correlation option) \<and>
          (case r of None \<Rightarrow> candidates = []
           | Some c \<Rightarrow> c \<in> set candidates \<and>
               list_all (\<lambda>c'. corr_created_at c' \<le> corr_created_at c) candidates)"
proof (cases "sort_key (\<lambda>c. - corr_created_at c) candidates")
  case Nil
  then have "length candidates = 0" by (metis length_sort list.size(3))
  with Nil show ?thesis by simp
next
  case (Cons y ys)
  from newest_first [OF Cons] have newest: "y \<in> set candidates"
    "list_all (\<lambda>c'. corr_created_at c' \<le> corr_created_at y) candidates" by simp_all
  from newest(1) assms have "corr_window_expires_at y > now" by simp
  with Cons newest show ?thesis by (simp add: window_in_future_def)
qed

text \<open>
  Claim C7.  With a context id that is present (not empty) and is the \<^verbatim>\<open>bot_message_id\<close> of a
  correlation whose window ends after the clock, \<^verbatim>\<open>find_correlation_for_context\<close> returns that
  correlation.  In every other case (no context id, no such correlation, or its window has
  ended) it returns, among the correlations of the destination whose window ends after the
  clock, one with the latest \<^verbatim>\<open>created_at\<close>, and none when there is no such correlation.
\<close>

theorem find_correlation_for_context_resolves:
  assumes uq: "uq_bot_message_id s"
  shows
   "(context_message_id = Some cid \<and> cid \<noteq> [] \<and> c \<in> set (message_correlations s) \<and>
     corr_bot_message_id c = cid \<and> corr_window_expires_at c > now \<longrightarrow>
       find_correlation_for_context now group_id context_message_id s = Inr (Some c)) \<and>
    (\<not> (\<exists>cid c. context_message_id = Some cid \<and> cid \<noteq> [] \<and> c \<in> set (message_correlations s) \<and>
           corr_bot_message_id c = cid \<and> corr_window_expires_at c > now) \<longrightarrow>
       (\<exists>r. find_correlation_for_context now group_id context_message_id s = Inr r \<and>
          (case r of
             None \<Rightarrow>
               filter (\<lambda>c. corr_group_id c = group_id \<and> corr_window_expires_at c > now)
                 (message_correlations s) = []
           | Some c \<Rightarrow>
               c \<in> set (filter (\<lambda>c. corr_group_id c = group_id \<and> corr_window_expires_at c > now)
                          (message_correlations s)) \<and>
               list_all (\<lambda>c'. corr_created_at c' \<le> corr_created_at c)
                 (filter (\<lambda>c. corr_group_id c = group_id \<and> corr_window_expires_at c > now)
                    (message_correlations s)))))"
proof (intro conjI impI)
  assume hit: "context_message_id = Some cid \<and> cid \<noteq> [] \<and> c \<in> set (message_correlations s) \<and>
     corr_bot_message_id c = cid \<and> corr_window_expires_at c > now"
  from uq hit have "filter (\<lambda>y. corr_bot_message_id y = corr_bot_message_id c)
      (message_correlations s) = [c]"
    unfolding uq_bot_message_id_def by (intro filter_distinct_key) simp_all
  with hit show "find_correlation_for_context now group_id context_message_id s = Inr (Some c)"
    by (auto simp: find_correlation_for_context_def scalar_one_or_none_def window_in_future_def)
next
  let ?candidates = "filter (\<lambda>c. corr_group_id c = group_id \<and> corr_window_expires_at c > now)
      (message_correlations s)"
  let ?fallback = "(case sort_key (\<lambda>c. - corr_created_at c) ?candidates of
             [] \<Rightarrow> Inr None
           | correlation # _ \<Rightarrow>
               if window_in_future (corr_window_expires_at correlation) now
               then Inr (Some correlation) else Inr None) :: exn + message_correlation option"
  assume miss: "\<not> (\<exists>cid c. context_message_id = Some cid \<and> cid \<noteq> [] \<and>
      c \<in> set (message_correlations s) \<and>
      corr_bot_message_id c = cid \<and> corr_window_expires_at c > now)"
  have "find_correlation_for_context now group_id context_message_id s = ?fallback"
  proof (cases context_message_id)
    case None
    then show ?thesis by (simp add: find_correlation_for_context_def)
  next
    case (Some cid)
    show ?thesis
    proof (cases "cid = []")
      case True
      with Some show ?thesis by (simp add: find_correlation_for_context_def)
    next
      case False
      from uq have "filter (\<lambda>y. corr_bot_message_id y = cid) (message_correlations s) = [] \<or>
          (\<exists>x. x \<in> set (message_correlations s) \<and> corr_bot_message_id x = cid \<and>
             filter (\<lambda>y. corr_bot_message_id y = cid) (message_correlations s) = [x])"
        unfolding uq_bot_message_id_def by (rule filter_distinct_cases)
      then show ?thesis
      proof
        assume "filter (\<lambda>y. corr_bot_message_id y = cid) (message_correlations s) = []"
        with Some False show ?thesis
          by (simp add: find_correlation_for_context_def scalar_one_or_none_def)
      next
        assume "\<exists>x. x \<in> set (message_correlations s) \<and> corr_bot_message_id x = cid \<and>
             filter (\<lambda>y. corr_bot_message_id y = cid) (message_correlations s) = [x]"
        then obtain x where x: "x \<in> set (message_correlations s)" "corr_bot_message_id x = cid"
          "filter (\<lambda>y. corr_bot_message_id y = cid) (message_correlations s) = [x]"
          by blast
        with miss Some False have "\<not> corr_window_expires_at x > now" by blast
        with x Some False show ?thesis
          by (simp add: find_correlation_for_context_def scalar_one_or_none_def
              window_in_future_def)
      qed
    qed
  qed
  with fallback_result [OF refl, where group_id = group_id and now = now and s = s]
  show "\<exists>r. find_correlation_for_context now group_id context_message_id s = Inr r \<and>
          (case r of
             None \<Rightarrow> ?candidates = []
           | Some c \<Rightarrow> c \<in> set ?candidates \<and>
               list_all (\<lambda>c'. corr_created_at c' \<le> corr_created_at c) ?candidates)"
    by simp
qed


theorem find_correlation_for_context_resolves_witness:
  "find_correlation_for_context 100 ''12345@g.us'' (Some ''wamid.1'') demo_replies =
     Inr (Some demo_correlation) \<and>
   find_correlation_for_context 100 ''12345@g.us'' None demo_replies =
     Inr (Some demo_correlation_2)"
proof -
  have uq: "uq_bot_message_id demo_replies"
    by (simp add: uq_bot_message_id_def eval_simps)
  have hit: "demo_correlation \<in> set (message_correlations demo_replies)"
    "corr_bot_message_id demo_correlation = ''wamid.1''"
    "corr_window_expires_at demo_correlation > 100"
    by (simp_all add: eval_simps)
  have candidates:
    "filter (\<lambda>c. corr_group_id c = ''12345@g.us'' \<and> corr_window_expires_at c > 100)
       (message_correlations demo_replies) = [demo_correlation, demo_correlation_2]"
    by (simp add: eval_simps)
  have older: "\<not> corr_created_at demo_correlation_2 \<le> corr_created_at demo_correlation"
    by (simp add: eval_simps)
  from find_correlation_for_context_resolves [OF uq, where now = 100
      and context_message_id = "Some ''wamid.1''" and cid = "''wamid.1''"
      and c = demo_correlation and group_id = "''12345@g.us''"] hit
  have first: "find_correlation_for_context 100 ''12345@g.us'' (Some ''wamid.1'') demo_replies =
     Inr (Some demo_correlation)"
    by simp
  from find_correlation_for_context_resolves [OF uq, where now = 100
      and context_message_id = None and group_id = "''12345@g.us''"] candidates
  obtain r where r: "find_correlation_for_context 100 ''12345@g.us'' None demo_replies = Inr r"
    "case r of None \<Rightarrow> False
     | Some c \<Rightarrow> (c = demo_correlation \<or> c = demo_correlation_2) \<and>
         corr_created_at demo_correlation \<le> corr_created_at c \<and>
         corr_created_at demo_correlation_2 \<le> corr_created_at c"
    by (auto split: option.splits)
  from r(2) older have "r = Some demo_correlation_2"
    by (cases r) auto
  with r(1) first show ?thesis by simp
qed

end
